theory Spec2Isabelle
  imports Complex_Main
begin

section \<open>Python values used by the INGEST phase\<close>

text \<open>
  The embedding follows \<^verbatim>\<open>src/INGEST_PHASE/ingest_phase.py\<close>. Strings are lists of
  characters. Reading a file in text mode is modelled for contents that are plain ASCII
  text with \<^verbatim>\<open>\n\<close> line ends: there decoding cannot fail and no newline is translated, so
  the text read is the bytes of the file. On other contents Python decodes ahead in chunks
  (a byte that does not decode raises when its chunk is read) and also ends lines at
  \<^verbatim>\<open>\r\<close> and \<^verbatim>\<open>\r\n\<close>; the model does not follow it there, and a statement that depends
  on it says so.
  Every exception the source can raise is a value of \<open>pyexc\<close>, and a computation that may
  raise returns \<open>pyexc + 'a\<close> with \<open>Inl\<close> the exception.
\<close>

datatype pyexc =
    FileNotFoundError
  | BadGzipFile
  | ValueError
  | IndexError
  | OverflowError
  | SubprocessError

definition bind_exc :: "pyexc + 'a \<Rightarrow> ('a \<Rightarrow> pyexc + 'b) \<Rightarrow> pyexc + 'b" where
  "bind_exc m k = (case m of Inl e \<Rightarrow> Inl e | Inr x \<Rightarrow> k x)"

definition try_except :: "pyexc + 'a \<Rightarrow> (pyexc \<Rightarrow> pyexc + 'a) \<Rightarrow> pyexc + 'a" where
  "try_except body handler = (case body of Inl e \<Rightarrow> handler e | Inr x \<Rightarrow> Inr x)"

subsection \<open>String methods\<close>

text \<open>\<^verbatim>\<open>str.isspace\<close> on ASCII: tab, LF, VT, FF, CR, FS, GS, RS, US and the space.\<close>

definition is_space :: "char \<Rightarrow> bool" where
  "is_space c = (let n = (of_char c :: nat) in (9 \<le> n \<and> n \<le> 13) \<or> (28 \<le> n \<and> n \<le> 32))"

definition is_digit :: "char \<Rightarrow> bool" where
  "is_digit c = (let n = (of_char c :: nat) in 48 \<le> n \<and> n \<le> 57)"

definition is_upper :: "char \<Rightarrow> bool" where
  "is_upper c = (let n = (of_char c :: nat) in 65 \<le> n \<and> n \<le> 90)"

definition is_lower :: "char \<Rightarrow> bool" where
  "is_lower c = (let n = (of_char c :: nat) in 97 \<le> n \<and> n \<le> 122)"

definition lower_char :: "char \<Rightarrow> char" where
  "lower_char c = (if is_upper c then char_of ((of_char c :: nat) + 32) else c)"

definition lower :: "string \<Rightarrow> string" where
  "lower s = map lower_char s"

text \<open>
  The whitespace \<^verbatim>\<open>float\<close> skips around an ASCII string: tab, LF, VT, FF, CR and the space
  (not FS, GS, RS, US, which \<^verbatim>\<open>str.strip\<close> removes).
\<close>

definition is_c_space :: "char \<Rightarrow> bool" where
  "is_c_space c = (let n = (of_char c :: nat) in (9 \<le> n \<and> n \<le> 13) \<or> n = 32)"

definition strip_c :: "string \<Rightarrow> string" where
  "strip_c s = rev (dropWhile is_c_space (rev (dropWhile is_c_space s)))"

definition lstrip :: "string \<Rightarrow> string" where
  "lstrip s = dropWhile is_space s"

definition rstrip :: "string \<Rightarrow> string" where
  "rstrip s = rev (dropWhile is_space (rev s))"

definition strip :: "string \<Rightarrow> string" where
  "strip s = rstrip (lstrip s)"

text \<open>\<^verbatim>\<open>line.rstrip('\n')\<close> removes every trailing line feed.\<close>

definition rstrip_nl :: "string \<Rightarrow> string" where
  "rstrip_nl s = rev (dropWhile (\<lambda>c. c = CHR 0x0A) (rev s))"

definition startswith :: "string \<Rightarrow> string \<Rightarrow> bool" where
  "startswith s p = (take (length p) s = p)"

text \<open>\<^verbatim>\<open>needle in hay\<close> for strings.\<close>

fun contains :: "string \<Rightarrow> string \<Rightarrow> bool" where
  "contains needle [] = (needle = [])"
| "contains needle (c # cs) = (startswith (c # cs) needle \<or> contains needle cs)"

text \<open>\<^verbatim>\<open>s.split(sep)\<close> for a one-character separator: never the empty list.\<close>

fun split_on :: "char \<Rightarrow> string \<Rightarrow> string list" where
  "split_on sep [] = [[]]"
| "split_on sep (c # cs) =
     (if c = sep then [] # split_on sep cs
      else (case split_on sep cs of [] \<Rightarrow> [[c]] | w # ws \<Rightarrow> (c # w) # ws))"

text \<open>\<^verbatim>\<open>s.split()\<close>: the maximal runs of non-whitespace characters.\<close>

fun split_ws :: "string \<Rightarrow> string list" where
  "split_ws [] = []"
| "split_ws (c # cs) =
     (if is_space c then split_ws cs
      else (case cs of
              [] \<Rightarrow> [[c]]
            | d # _ \<Rightarrow>
                if is_space d then [c] # split_ws cs
                else (case split_ws cs of [] \<Rightarrow> [[c]] | w # ws \<Rightarrow> (c # w) # ws)))"

text \<open>
  \<^verbatim>\<open>s.replace(old, new)\<close>, leftmost non-overlapping occurrences. Every call of the
  source passes a non-empty \<open>old\<close>; with an empty one the model leaves \<open>s\<close> as it is.
\<close>

function replace :: "string \<Rightarrow> string \<Rightarrow> string \<Rightarrow> string" where
  "replace old new [] = []"
| "replace old new (c # cs) =
     (if old \<noteq> [] \<and> startswith (c # cs) old
      then new @ replace old new (drop (length old) (c # cs))
      else c # replace old new cs)"
  by pat_completeness auto
termination
  by (relation "measure (\<lambda>(old, new, s). length s)") auto

text \<open>\<^verbatim>\<open>str.isalnum\<close> on ASCII: non-empty, letters and digits only.\<close>

definition isalnum :: "string \<Rightarrow> bool" where
  "isalnum s = (s \<noteq> [] \<and> list_all (\<lambda>c. is_digit c \<or> is_upper c \<or> is_lower c) s)"

text \<open>
  The lines of a text, each with its terminator (\<^verbatim>\<open>f.readlines()\<close>, \<^verbatim>\<open>for line in f\<close>),
  for a text whose lines end at \<^verbatim>\<open>\n\<close>.
\<close>

fun readlines :: "string \<Rightarrow> string list" where
  "readlines [] = []"
| "readlines (c # cs) =
     (if c = CHR 0x0A then [c] # readlines cs
      else (case readlines cs of [] \<Rightarrow> [[c]] | l # ls \<Rightarrow> (c # l) # ls))"

text \<open>The \<open>i\<close>-th call of \<^verbatim>\<open>f.readline()\<close> on a fresh handle: the empty string at end of file.\<close>

definition readline :: "string list \<Rightarrow> nat \<Rightarrow> string" where
  "readline ls i = (if i < length ls then ls ! i else [])"

subsection \<open>Numbers read from text\<close>

text \<open>
  \<^verbatim>\<open>float(s)\<close> on an ASCII string: surrounding whitespace (\<open>strip_c\<close>), a sign, then
  \<^verbatim>\<open>inf\<close>, \<^verbatim>\<open>infinity\<close>, \<^verbatim>\<open>nan\<close> (any case) or a decimal literal with optional fraction
  and exponent, single underscores allowed between digits. \<open>None\<close> is \<^verbatim>\<open>ValueError\<close>. A
  finite value is kept as the exact rational the literal denotes; a magnitude that rounds
  to infinity or to zero in binary64 is mapped there, so the sign test \<^verbatim>\<open>val < 0\<close> and the
  overflow of \<^verbatim>\<open>int(val)\<close> are those of the source. Rounding inside the finite range is not
  modelled.
\<close>

datatype pyfloat = Finite rat | Infinity bool | NaN

definition digit_part_ok :: "string \<Rightarrow> bool" where
  "digit_part_ok d =
     (d \<noteq> [] \<and> is_digit (hd d) \<and> is_digit (last d) \<and>
      list_all (\<lambda>c. is_digit c \<or> c = CHR ''_'') d \<and>
      \<not> contains ''__'' d)"

definition digits_value :: "string \<Rightarrow> nat" where
  "digits_value d = foldl (\<lambda>acc c. 10 * acc + ((of_char c :: nat) - 48)) 0 (filter is_digit d)"

definition digit_run :: "string \<Rightarrow> string \<times> string" where
  "digit_run s = (takeWhile (\<lambda>c. is_digit c \<or> c = CHR ''_'') s,
                  dropWhile (\<lambda>c. is_digit c \<or> c = CHR ''_'') s)"

text \<open>An optional leading sign: \<open>True\<close> for a minus.\<close>

definition take_sign :: "string \<Rightarrow> bool \<times> string" where
  "take_sign s =
     (case s of
        [] \<Rightarrow> (False, [])
      | c # cs \<Rightarrow> if c = CHR ''-'' then (True, cs) else if c = CHR ''+'' then (False, cs) else (False, s))"

definition scale10 :: "nat \<Rightarrow> int \<Rightarrow> rat" where
  "scale10 m e = (if 0 \<le> e then of_nat m * 10 ^ nat e else of_nat m / 10 ^ nat (- e))"

definition round_binary64 :: "bool \<Rightarrow> rat \<Rightarrow> pyfloat" where
  "round_binary64 neg x =
     (if 2 ^ 1024 - 2 ^ 970 \<le> x then Infinity neg
      else if x \<le> 1 / 2 ^ 1075 then Finite 0
      else Finite (if neg then - x else x))"

definition parse_decimal :: "bool \<Rightarrow> string \<Rightarrow> pyfloat option" where
  "parse_decimal neg s =
     (let (ip, r1) = digit_run s;
          (dot, fp, r2) =
             (case r1 of
                c # cs \<Rightarrow> if c = CHR ''.'' then (True, digit_run cs) else (False, [], r1)
              | [] \<Rightarrow> (False, [], r1));
          mant_ok = (if dot then (ip = [] \<or> digit_part_ok ip) \<and> (fp = [] \<or> digit_part_ok fp)
                                  \<and> (ip \<noteq> [] \<or> fp \<noteq> [])
                     else digit_part_ok ip)
      in if \<not> mant_ok then None
         else
           (let m = digits_value (ip @ fp); k = int (length (filter is_digit fp))
            in case r2 of
                 [] \<Rightarrow> Some (round_binary64 neg (scale10 m (- k)))
               | c # cs \<Rightarrow>
                   if c = CHR ''e'' \<or> c = CHR ''E'' then
                     (let (eneg, r3) = take_sign cs; (ed, r4) = digit_run r3
                      in if digit_part_ok ed \<and> r4 = []
                         then Some (round_binary64 neg
                                (scale10 m ((if eneg then - int (digits_value ed)
                                             else int (digits_value ed)) - k)))
                         else None)
                   else None))"

definition py_float :: "string \<Rightarrow> pyfloat option" where
  "py_float s =
     (let (neg, r) = take_sign (strip_c s); l = lower r
      in if l = ''inf'' \<or> l = ''infinity'' then Some (Infinity neg)
         else if l = ''nan'' then Some NaN
         else parse_decimal neg r)"

text \<open>\<^verbatim>\<open>val < 0\<close> on a float.\<close>

definition float_negative :: "pyfloat \<Rightarrow> bool" where
  "float_negative v = (case v of Finite x \<Rightarrow> x < 0 | Infinity neg \<Rightarrow> neg | NaN \<Rightarrow> False)"

text \<open>
  \<^verbatim>\<open>val != int(val)\<close>: \<^verbatim>\<open>int\<close> raises \<^verbatim>\<open>OverflowError\<close> on an infinity and
  \<^verbatim>\<open>ValueError\<close> on a NaN.
\<close>

definition float_not_integral :: "pyfloat \<Rightarrow> pyexc + bool" where
  "float_not_integral v =
     (case v of
        Finite x \<Rightarrow> Inr (x \<noteq> of_int \<lfloor>x\<rfloor>)
      | Infinity _ \<Rightarrow> Inl OverflowError
      | NaN \<Rightarrow> Inl ValueError)"

text \<open>\<^verbatim>\<open>int(s)\<close> on a token without whitespace: a sign and decimal digits.\<close>

definition py_int :: "string \<Rightarrow> int option" where
  "py_int s =
     (let (neg, r) = take_sign s
      in if digit_part_ok r
         then Some (if neg then - int (digits_value r) else int (digits_value r))
         else None)"

subsection \<open>Paths and files\<close>

text \<open>
  Every method of the source starts with \<^verbatim>\<open>file_path = Path(file_path)\<close> and uses that
  object only. A path of the model is the string of that object, \<^verbatim>\<open>str(Path(file_path))\<close>,
  so it is already normalised (no \<^verbatim>\<open>./\<close>, no doubled or trailing slash) and is the value
  stored in the field \<^verbatim>\<open>file_path\<close>. \<open>path_name\<close>, \<open>suffix\<close> and \<open>stem\<close> are \<^verbatim>\<open>pathlib\<close>'s \<^verbatim>\<open>name\<close>,
  \<^verbatim>\<open>suffix\<close> and \<^verbatim>\<open>stem\<close>: the suffix starts at the last dot of the final component unless
  that dot is its first or last character.
\<close>

type_synonym path = string

definition path_name :: "path \<Rightarrow> string" where
  "path_name p = rev (takeWhile (\<lambda>c. c \<noteq> CHR ''/'') (rev p))"

definition suffix :: "path \<Rightarrow> string" where
  "suffix p =
     (let n = path_name p; ext = rev (takeWhile (\<lambda>c. c \<noteq> CHR ''.'') (rev n))
      in if CHR ''.'' \<in> set n \<and> ext \<noteq> [] \<and> Suc (length ext) < length n
         then CHR ''.'' # ext else [])"

definition stem :: "path \<Rightarrow> string" where
  "stem p = (let n = path_name p in take (length n - length (suffix p)) n)"

text \<open>
  What the file system holds at a path: nothing, or a file with its bytes and with what
  \<^verbatim>\<open>gzip.open(path, 'rt')\<close> delivers for them (the decompressed text, or the exception
  raised on reading bytes that are not gzip data). \<open>open_r\<close> is \<^verbatim>\<open>open(path, 'r')\<close> read as
  text: the bytes themselves, which is what Python delivers when they are plain ASCII text
  with \<^verbatim>\<open>\n\<close> line ends (\<open>ascii_text\<close> below); a \<^verbatim>\<open>UnicodeDecodeError\<close> on other bytes is
  not modelled.
\<close>

datatype pyfile = NoFile | File (raw: string) (gunzipped: "pyexc + string")

definition open_r :: "pyfile \<Rightarrow> pyexc + string" where
  "open_r f = (case f of NoFile \<Rightarrow> Inl FileNotFoundError | File bytes gz \<Rightarrow> Inr bytes)"

definition gzip_open :: "pyfile \<Rightarrow> pyexc + string" where
  "gzip_open f = (case f of NoFile \<Rightarrow> Inl FileNotFoundError | File bytes gz \<Rightarrow> gz)"

text \<open>
  Plain ASCII text with \<^verbatim>\<open>\n\<close> line ends: every byte below 128 and none a carriage
  return. \<open>reads_ascii\<close> says so of what a text-mode read delivers, when it delivers.
\<close>

definition ascii_text :: "string \<Rightarrow> bool" where
  "ascii_text s = list_all (\<lambda>c. (of_char c :: nat) < 128 \<and> c \<noteq> CHR 0x0D) s"

definition reads_ascii :: "pyexc + string \<Rightarrow> bool" where
  "reads_ascii r = (case r of Inl e \<Rightarrow> True | Inr c \<Rightarrow> ascii_text c)"

text \<open>\<^verbatim>\<open>file_path.stat().st_size\<close>.\<close>

definition st_size :: "pyfile \<Rightarrow> pyexc + nat" where
  "st_size f = (case f of NoFile \<Rightarrow> Inl FileNotFoundError | File bytes gz \<Rightarrow> Inr (length bytes))"

text \<open>\<^verbatim>\<open>f.read(4)\<close> on a handle opened with \<^verbatim>\<open>'rb'\<close>.\<close>

definition read4 :: "pyfile \<Rightarrow> pyexc + string" where
  "read4 f = (case f of NoFile \<Rightarrow> Inl FileNotFoundError | File bytes gz \<Rightarrow> Inr (take 4 bytes))"

text \<open>
  The outcome of \<^verbatim>\<open>subprocess.run(['samtools', 'flagstat', path], ...)\<close>: an exception
  (the tool is missing, the timeout expired) or a return code with the captured output.
\<close>

datatype samtools_run = ToolRaises pyexc | Completed int string

section \<open>Validation records\<close>

datatype status = PASS | WARN | FAIL

datatype input_kind = FASTQ | BAM | CELL | MATRIX | UNKNOWN

text \<open>
  The findings a validator appends to its \<^verbatim>\<open>validation_errors\<close> (or \<^verbatim>\<open>errors\<close>) list,
  one constructor per message of the source, with the values the message interpolates.
\<close>

datatype diagnostic =
    ColumnCount nat nat nat
  | EmptyGeneId nat
  | NegativeCountValue nat pyfloat
  | NonNumeric nat string
  | ReadHeader nat
  | ReadPlus nat
  | ReadLength nat nat nat
  | ReadNucleotides nat "char set"
  | CellColumns
  | CellColumnMismatch nat nat nat
  | InvalidProbeId nat string
  | NegativeIntensity nat pyfloat
  | CellNonNumeric nat nat string
  | MatrixColumns
  | MatrixColumnMismatch nat
  | NegativeCount nat pyfloat

text \<open>What \<^verbatim>\<open>logger.warning\<close> receives inside the count-matrix body loop.\<close>

datatype advisory = NonIntegerCount nat pyfloat

text \<open>The second component of the pair a \<^verbatim>\<open>validate_*\<close> method returns.\<close>

datatype check_msg =
    FewerThan4Lines
  | HeaderMustStartAt string
  | PlusMustStartPlus string
  | InvalidNucleotides "char set"
  | SeqQualLength nat nat
  | InvalidQuality
  | ValidFastq
  | ErrorValidatingFastq pyexc
  | ValidBamMagic
  | InvalidBamMagic string
  | ErrorValidatingBam pyexc
  | NoProbeColumn
  | NoIntensityColumn
  | FewerThan3Columns
  | ValidCell nat
  | ErrorValidatingCell pyexc
  | NoDataRow
  | FewerThan2Columns
  | MatrixErrors "diagnostic list"
  | ValidMatrix nat nat
  | ErrorValidatingMatrix pyexc

datatype message =
    HeaderValidationFailed check_msg
  | MagicValidationFailed check_msg
  | StructureValidationFailed check_msg
  | FoundErrors nat
  | FastqSuccessful
  | BamSuccessful int
  | BamMagicOnly
  | CellSuccessful
  | MatrixSuccessful
  | ParsingError pyexc
  | UnknownFileType

text \<open>
  The dataclass \<^verbatim>\<open>IngestResult\<close>. \<open>file_size_mb\<close> is \<^verbatim>\<open>st_size / (1024 * 1024)\<close>, exact
  in binary64 for every size below \<open>2 ^ 53\<close>; \<open>timestamp\<close> is the clock reading taken by
  \<^verbatim>\<open>__post_init__\<close>.
\<close>

record IngestResult =
  dataset_id :: string
  input_type :: input_kind
  file_path :: string
  file_size :: nat
  file_size_mb :: rat
  validation_status :: status
  validation_message :: message
  file_count :: nat
  sample_name :: string
  is_paired_end :: "bool option"
  detected_format :: "string option"
  total_reads :: "int option"
  sequence_length :: "int option"
  timestamp :: string

text \<open>The constructor call with the optional fields left at their default \<^verbatim>\<open>None\<close>.\<close>

definition new_result ::
  "string \<Rightarrow> string \<Rightarrow> input_kind \<Rightarrow> path \<Rightarrow> nat \<Rightarrow> status \<Rightarrow> message \<Rightarrow> string \<Rightarrow> IngestResult" where
  "new_result now did kind p sz st msg sname =
     \<lparr> dataset_id = did, input_type = kind, file_path = p, file_size = sz,
       file_size_mb = of_nat sz / (1024 * 1024), validation_status = st,
       validation_message = msg, file_count = 1, sample_name = sname,
       is_paired_end = None, detected_format = None, total_reads = None,
       sequence_length = None, timestamp = now \<rparr>"

section \<open>Header and magic confirmation\<close>

definition valid_nucleotides :: "char set" where
  "valid_nucleotides = set ''ACGTNacgtnRYWSKMBDHVryswkmbdhv''"

text \<open>
  \<^verbatim>\<open>gzip.open(file_path, 'rt')\<close> when the suffix is \<^verbatim>\<open>.gz\<close>, else \<^verbatim>\<open>open(file_path, 'r')\<close>;
  the result is the text the handle delivers.
\<close>

definition fastq_open :: "path \<Rightarrow> pyfile \<Rightarrow> pyexc + string" where
  "fastq_open p f = (if suffix p = ''.gz'' then gzip_open f else open_r f)"

text \<open>\<^verbatim>\<open>[f.readline().strip() for _ in range(4)]\<close>.\<close>

definition first_four_lines :: "string \<Rightarrow> string list" where
  "first_four_lines text = map (\<lambda>i. strip (readline (readlines text) i)) [0 ..< 4]"

definition validate_fastq_header :: "path \<Rightarrow> pyfile \<Rightarrow> bool \<times> check_msg" where
  "validate_fastq_header p f =
     (case fastq_open p f of
        Inl e \<Rightarrow> (False, ErrorValidatingFastq e)
      | Inr text \<Rightarrow>
          (let lines = first_four_lines text
           in if length lines < 4 then (False, FewerThan4Lines)
              else
                (let header = lines ! 0; seq = lines ! 1; plus = lines ! 2; qual = lines ! 3
                 in if \<not> startswith header ''@''
                      then (False, HeaderMustStartAt (take 20 header))
                    else if \<not> startswith plus ''+''
                      then (False, PlusMustStartPlus (take 20 plus))
                    else if \<not> list_all (\<lambda>c. c \<in> valid_nucleotides) seq
                      then (False, InvalidNucleotides (set seq - valid_nucleotides))
                    else if length seq \<noteq> length qual
                      then (False, SeqQualLength (length seq) (length qual))
                    else if list_ex (\<lambda>c. (of_char c :: nat) < 33 \<or> 126 < (of_char c :: nat)) qual
                      then (False, InvalidQuality)
                    else (True, ValidFastq))))"

definition validate_bam_magic :: "path \<Rightarrow> pyfile \<Rightarrow> bool \<times> check_msg" where
  "validate_bam_magic p f =
     (case read4 f of
        Inl e \<Rightarrow> (False, ErrorValidatingBam e)
      | Inr magic \<Rightarrow>
          if magic = [CHR ''B'', CHR ''A'', CHR ''M'', CHR 0x01] then (True, ValidBamMagic)
          else (False, InvalidBamMagic magic))"

definition validate_cell_header :: "path \<Rightarrow> pyfile \<Rightarrow> bool \<times> check_msg" where
  "validate_cell_header p f =
     (case open_r f of
        Inl e \<Rightarrow> (False, ErrorValidatingCell e)
      | Inr text \<Rightarrow>
          (let header = split_on (CHR 0x09) (strip (readline (readlines text) 0));
               header_lower = map lower header;
               has_probe_id = list_ex (\<lambda>h. contains ''probe'' h) header_lower;
               has_intensity =
                 list_ex (\<lambda>h. contains ''intensity'' h \<or> contains ''signal'' h) header_lower
           in if \<not> has_probe_id then (False, NoProbeColumn)
              else if \<not> has_intensity then (False, NoIntensityColumn)
              else if length header < 3 then (False, FewerThan3Columns)
              else (True, ValidCell (length header))))"

text \<open>
  One data line of \<^verbatim>\<open>validate_count_matrix_structure\<close>: every finding is appended only
  while fewer than five are recorded. \<^verbatim>\<open>fields[0]\<close> is \<open>hd fields\<close> here and in the body
  loops below: \<open>split_on\<close> never returns the empty list (\<open>split_on_not_Nil\<close>), as
  \<^verbatim>\<open>str.split\<close> with a separator never does.
\<close>

definition append_capped :: "diagnostic list \<Rightarrow> diagnostic \<Rightarrow> diagnostic list" where
  "append_capped errors d = (if length errors < 5 then errors @ [d] else errors)"

definition structure_field :: "nat \<Rightarrow> string \<Rightarrow> diagnostic list \<Rightarrow> diagnostic list" where
  "structure_field line_num field errors =
     (case py_float field of
        Some val \<Rightarrow>
          if float_negative val then append_capped errors (NegativeCountValue line_num val)
          else errors
      | None \<Rightarrow> append_capped errors (NonNumeric line_num field))"

definition structure_line :: "nat \<Rightarrow> nat \<Rightarrow> string \<Rightarrow> diagnostic list \<Rightarrow> diagnostic list" where
  "structure_line col_count line_num line errors =
     (let fields = split_on (CHR 0x09) (strip line);
          errors1 = (if length fields \<noteq> col_count
                     then append_capped errors (ColumnCount line_num (length fields) col_count)
                     else errors);
          errors2 = (if hd fields = [] \<or> strip (hd fields) = []
                     then append_capped errors1 (EmptyGeneId line_num)
                     else errors1)
      in fold (structure_field line_num) (tl fields) errors2)"

definition validate_count_matrix_structure :: "path \<Rightarrow> pyfile \<Rightarrow> bool \<times> check_msg" where
  "validate_count_matrix_structure p f =
     (case open_r f of
        Inl e \<Rightarrow> (False, ErrorValidatingMatrix e)
      | Inr text \<Rightarrow>
          (let lines = readlines text
           in if length lines < 2 then (False, NoDataRow)
              else
                (let header = split_on (CHR 0x09) (strip (hd lines))
                 in if length header < 2 then (False, FewerThan2Columns)
                    else
                      (let col_count = length header;
                           errors = fold (\<lambda>(line_num, line). structure_line col_count line_num line)
                                      (enumerate 2 (tl lines)) []
                       in if errors \<noteq> [] then (False, MatrixErrors errors)
                          else (True, ValidMatrix (length lines - 1) (col_count - 1))))))"

section \<open>Step 2: the format sniffer\<close>

text \<open>
  Each test of the source has the shape \<^verbatim>\<open>if <extension test>: is_valid, msg = ...; if
  is_valid: return ...\<close> and falls through to the next test when the extension does not
  match or the confirmation fails; the chain below returns at the first test whose extension
  matches and whose confirmation passes.
\<close>

definition detect_input_type :: "path \<Rightarrow> pyfile \<Rightarrow> input_kind \<times> string" where
  "detect_input_type p f =
     (let extension = lower (suffix p)
      in if extension \<in> set [''.fastq'', ''.fq'', ''.gz'']
            \<and> list_ex (\<lambda>x. contains x (path_name p)) [''fastq'', ''fq'']
            \<and> fst (validate_fastq_header p f)
         then (FASTQ, if extension \<noteq> ''.gz'' then ''FASTQ (uncompressed)''
                      else ''FASTQ (gzip compressed)'')
         else if extension = ''.bam'' \<and> fst (validate_bam_magic p f)
         then (BAM, ''BAM (Binary Alignment Map)'')
         else if extension \<in> set [''.tsv'', ''.csv'', ''.txt'']
                 \<and> fst (validate_cell_header p f)
         then (CELL, ''CELL Microarray Data'')
         else if extension \<in> set [''.tsv'', ''.csv'', ''.txt'']
                 \<and> fst (validate_count_matrix_structure p f)
         then (MATRIX, ''Count Matrix (Processed Expression Data)'')
         else (UNKNOWN, ''Unknown format''))"

section \<open>Step 3: the structural validators\<close>

subsection \<open>FASTQ\<close>

definition fastq_sample_name :: "path \<Rightarrow> string" where
  "fastq_sample_name p = replace ''.gz'' [] (replace ''.fq'' [] (replace ''.fastq'' [] (stem p)))"

text \<open>The checks on one four-line record; \<open>read_count\<close> is already incremented.\<close>

definition fastq_record_errors :: "nat \<Rightarrow> string list \<Rightarrow> diagnostic list" where
  "fastq_record_errors read_count lines =
     (let header = lines ! 0; seq = lines ! 1; plus = lines ! 2; qual = lines ! 3;
          invalid_chars = set seq - valid_nucleotides
      in (if \<not> startswith header ''@'' then [ReadHeader read_count] else [])
         @ (if \<not> startswith plus ''+'' then [ReadPlus read_count] else [])
         @ (if length seq \<noteq> length qual
            then [ReadLength read_count (length seq) (length qual)] else [])
         @ (if invalid_chars \<noteq> {} \<and> read_count \<le> 5
            then [ReadNucleotides read_count invalid_chars] else []))"

text \<open>
  The loop \<^verbatim>\<open>for line_num, line in enumerate(f)\<close> of \<^verbatim>\<open>parse_fastq\<close>: the arguments after
  the remaining lines are \<^verbatim>\<open>lines\<close>, \<^verbatim>\<open>read_count\<close>, \<^verbatim>\<open>validation_errors\<close> and
  \<^verbatim>\<open>sequence_lengths\<close>; the result is the last three when the loop ends or breaks.
\<close>

fun fastq_loop ::
  "string list \<Rightarrow> string list \<Rightarrow> nat \<Rightarrow> diagnostic list \<Rightarrow> nat list
     \<Rightarrow> nat \<times> diagnostic list \<times> nat list" where
  "fastq_loop [] lines read_count validation_errors sequence_lengths =
     (read_count, validation_errors, sequence_lengths)"
| "fastq_loop (line # rest) lines read_count validation_errors sequence_lengths =
     (let lines1 = lines @ [rstrip_nl line]
      in if length lines1 = 4 then
           (let read_count1 = read_count + 1;
                errors1 = validation_errors @ fastq_record_errors read_count1 lines1;
                lengths1 = sequence_lengths @ [length (lines1 ! 1)]
            in if read_count1 > 1000 then (read_count1, errors1, lengths1)
               else fastq_loop rest [] read_count1 errors1 lengths1)
         else fastq_loop rest lines1 read_count validation_errors sequence_lengths)"

definition parse_fastq :: "string \<Rightarrow> path \<Rightarrow> pyfile \<Rightarrow> pyexc + IngestResult" where
  "parse_fastq now p f =
     (let sname = fastq_sample_name p
      in try_except
           (let (is_valid, header_msg) = validate_fastq_header p f
            in if \<not> is_valid then
                 bind_exc (st_size f) (\<lambda>sz.
                   Inr (new_result now sname FASTQ p sz FAIL
                          (HeaderValidationFailed header_msg) sname))
               else
                 bind_exc (fastq_open p f) (\<lambda>text.
                   (let (read_count, validation_errors, sequence_lengths) =
                          fastq_loop (readlines text) [] 0 [] [];
                        is_paired = list_ex (\<lambda>pattern. contains pattern (path_name p))
                                      [''_R1'', ''_R2'', ''_1'', ''_2'', ''.1'', ''.2''];
                        avg_seq_length =
                          (if sequence_lengths \<noteq> []
                           then sum_list sequence_lengths div length sequence_lengths else 0);
                        (st, msg) =
                          (if validation_errors \<noteq> []
                           then (if length validation_errors > 10 then FAIL else WARN,
                                 FoundErrors (length validation_errors))
                           else (PASS, FastqSuccessful))
                    in bind_exc (st_size f) (\<lambda>sz.
                         Inr ((new_result now sname FASTQ p sz st msg sname)
                                \<lparr> is_paired_end := Some is_paired,
                                  detected_format :=
                                    Some (if is_paired then ''FASTQ (Paired-end)''
                                          else ''FASTQ (Single-end)''),
                                  total_reads := Some (int read_count),
                                  sequence_length := Some (int avg_seq_length) \<rparr>)))))
           (\<lambda>e. bind_exc (st_size f) (\<lambda>sz.
                  Inr (new_result now sname FASTQ p sz FAIL (ParsingError e) sname))))"

subsection \<open>BAM\<close>

text \<open>\<^verbatim>\<open>int(lines[0].split()[0]) if lines else 0\<close> on the tool's standard output.\<close>

definition flagstat_total :: "string \<Rightarrow> pyexc + int" where
  "flagstat_total out =
     (case split_on (CHR 0x0A) (strip out) of
        [] \<Rightarrow> Inr 0
      | l # _ \<Rightarrow>
          (case split_ws l of
             [] \<Rightarrow> Inl IndexError
           | w # _ \<Rightarrow> (case py_int w of None \<Rightarrow> Inl ValueError | Some n \<Rightarrow> Inr n)))"

text \<open>
  The inner \<^verbatim>\<open>try\<close> of \<^verbatim>\<open>parse_bam\<close>: status, message, \<^verbatim>\<open>total_reads\<close> and \<^verbatim>\<open>is_paired\<close>.
  Its handler catches every exception.
\<close>

definition samtools_flagstat :: "samtools_run \<Rightarrow> status \<times> message \<times> int option \<times> bool option" where
  "samtools_flagstat tool =
     (case tool of
        ToolRaises e \<Rightarrow> (PASS, BamMagicOnly, None, None)
      | Completed returncode out \<Rightarrow>
          if returncode = 0 then
            (case flagstat_total out of
               Inl e \<Rightarrow> (PASS, BamMagicOnly, None, None)
             | Inr n \<Rightarrow> (PASS, BamSuccessful n, Some n, Some (n > 0)))
          else (PASS, BamMagicOnly, None, None))"

definition parse_bam :: "string \<Rightarrow> samtools_run \<Rightarrow> path \<Rightarrow> pyfile \<Rightarrow> pyexc + IngestResult" where
  "parse_bam now tool p f =
     (let sname = replace ''.bam'' [] (stem p)
      in try_except
           (let (is_valid, magic_msg) = validate_bam_magic p f
            in if \<not> is_valid then
                 bind_exc (st_size f) (\<lambda>sz.
                   Inr (new_result now sname BAM p sz FAIL
                          (MagicValidationFailed magic_msg) sname))
               else
                 (let (st, msg, total, is_paired) = samtools_flagstat tool
                  in bind_exc (st_size f) (\<lambda>sz.
                       Inr ((new_result now sname BAM p sz st msg sname)
                              \<lparr> is_paired_end := is_paired,
                                detected_format := Some ''BAM (Binary Alignment Map)'',
                                total_reads := total \<rparr>))))
           (\<lambda>e. bind_exc (st_size f) (\<lambda>sz.
                  Inr (new_result now sname BAM p sz FAIL (ParsingError e) sname))))"

subsection \<open>CELL and count matrix\<close>

text \<open>The variables the two tabular body loops carry from line to line.\<close>

record scan =
  validation_errors :: "diagnostic list"
  row_count :: nat
  col_count :: nat
  warnings :: "advisory list"

definition scan_init :: scan where
  "scan_init = \<lparr> validation_errors = [], row_count = 0, col_count = 0, warnings = [] \<rparr>"

definition cell_field :: "nat \<Rightarrow> nat \<Rightarrow> nat \<times> string \<Rightarrow> diagnostic list \<Rightarrow> diagnostic list" where
  "cell_field line_num rc cf errors =
     (case py_float (snd cf) of
        Some val \<Rightarrow>
          if float_negative val \<and> rc \<le> 5 then errors @ [NegativeIntensity line_num val]
          else errors
      | None \<Rightarrow>
          if rc \<le> 5 then errors @ [CellNonNumeric line_num (fst cf) (snd cf)] else errors)"

definition cell_line :: "nat \<Rightarrow> string \<Rightarrow> scan \<Rightarrow> scan" where
  "cell_line line_num line s =
     (let fields = split_on (CHR 0x09) (strip line)
      in if line_num = 0 then
           s \<lparr> col_count := length fields,
               validation_errors :=
                 (if length fields < 3 then validation_errors s @ [CellColumns]
                  else validation_errors s) \<rparr>
         else
           (let rc = row_count s + 1;
                e1 = (if length fields \<noteq> col_count s \<and> rc \<le> 5
                      then validation_errors s
                             @ [CellColumnMismatch line_num (length fields) (col_count s)]
                      else validation_errors s);
                probe_id = hd fields;
                e2 = (if \<not> isalnum (replace ''-'' [] (replace ''_'' [] probe_id)) \<and> rc \<le> 5
                      then e1 @ [InvalidProbeId line_num probe_id] else e1);
                e3 = fold (cell_field line_num rc)
                       (map (\<lambda>col_idx. (col_idx, fields ! col_idx))
                          [2 ..< min (length fields) (col_count s)]) e2
            in s \<lparr> row_count := rc, validation_errors := e3 \<rparr>))"

text \<open>The loop \<^verbatim>\<open>for line_num, line in enumerate(f)\<close> of \<^verbatim>\<open>parse_cell\<close>.\<close>

definition cell_loop :: "string list \<Rightarrow> scan" where
  "cell_loop ls = fold (\<lambda>(line_num, line). cell_line line_num line) (enumerate 0 ls) scan_init"

definition parse_cell :: "string \<Rightarrow> path \<Rightarrow> pyfile \<Rightarrow> pyexc + IngestResult" where
  "parse_cell now p f =
     (let sname = stem p
      in try_except
           (let (is_valid, header_msg) = validate_cell_header p f
            in if \<not> is_valid then
                 bind_exc (st_size f) (\<lambda>sz.
                   Inr (new_result now sname CELL p sz FAIL
                          (HeaderValidationFailed header_msg) sname))
               else
                 bind_exc (open_r f) (\<lambda>text.
                   (let s = cell_loop (readlines text);
                        (st, msg) =
                          (if validation_errors s \<noteq> []
                           then (if length (validation_errors s) > 10 then FAIL else WARN,
                                 FoundErrors (length (validation_errors s)))
                           else (PASS, CellSuccessful))
                    in bind_exc (st_size f) (\<lambda>sz.
                         Inr ((new_result now sname CELL p sz st msg sname)
                                \<lparr> detected_format := Some ''CELL Microarray Data'',
                                  total_reads := Some (int (row_count s)),
                                  sequence_length := Some (int (col_count s)) \<rparr>)))))
           (\<lambda>e. bind_exc (st_size f) (\<lambda>sz.
                  Inr (new_result now sname CELL p sz FAIL (ParsingError e) sname))))"

text \<open>
  One numeric field of a count-matrix data row. \<^verbatim>\<open>except ValueError\<close> catches both a
  failed \<^verbatim>\<open>float\<close> and the \<^verbatim>\<open>ValueError\<close> of \<^verbatim>\<open>int\<close> on a NaN; the \<^verbatim>\<open>OverflowError\<close> of
  \<^verbatim>\<open>int\<close> on an infinity leaves the loop.
\<close>

definition matrix_field :: "nat \<Rightarrow> nat \<Rightarrow> string \<Rightarrow> scan \<Rightarrow> pyexc + scan" where
  "matrix_field line_num rc field s =
     (case py_float field of
        None \<Rightarrow>
          Inr (if rc \<le> 5
               then s \<lparr> validation_errors := validation_errors s @ [NonNumeric line_num field] \<rparr>
               else s)
      | Some val \<Rightarrow>
          (let s1 = (if float_negative val \<and> rc \<le> 5
                     then s \<lparr> validation_errors :=
                                validation_errors s @ [NegativeCount line_num val] \<rparr>
                     else s)
           in case float_not_integral val of
                Inl e \<Rightarrow>
                  if e = ValueError then
                    Inr (if rc \<le> 5
                         then s1 \<lparr> validation_errors :=
                                     validation_errors s1 @ [NonNumeric line_num field] \<rparr>
                         else s1)
                  else Inl e
              | Inr not_integral \<Rightarrow>
                  Inr (if not_integral \<and> rc \<le> 5
                       then s1 \<lparr> warnings := warnings s1 @ [NonIntegerCount line_num val] \<rparr>
                       else s1)))"

fun fold_exc :: "('a \<Rightarrow> 's \<Rightarrow> pyexc + 's) \<Rightarrow> 'a list \<Rightarrow> 's \<Rightarrow> pyexc + 's" where
  "fold_exc step [] s = Inr s"
| "fold_exc step (x # xs) s = (case step x s of Inl e \<Rightarrow> Inl e | Inr s1 \<Rightarrow> fold_exc step xs s1)"

definition matrix_line :: "nat \<Rightarrow> string \<Rightarrow> scan \<Rightarrow> pyexc + scan" where
  "matrix_line line_num line s =
     (let fields = (if startswith line '','' then split_on (CHR '','') (strip line)
                    else split_on (CHR 0x09) (strip line))
      in if line_num = 0 then
           Inr (s \<lparr> col_count := length fields,
                    validation_errors :=
                      (if length fields < 2 then validation_errors s @ [MatrixColumns]
                       else validation_errors s) \<rparr>)
         else
           (let rc = row_count s + 1;
                e1 = (if length fields \<noteq> col_count s \<and> rc \<le> 5
                      then validation_errors s @ [MatrixColumnMismatch line_num]
                      else validation_errors s);
                gene_id = hd fields;
                e2 = (if (gene_id = [] \<or> length gene_id = 0) \<and> rc \<le> 5
                      then e1 @ [EmptyGeneId line_num] else e1)
            in fold_exc (matrix_field line_num rc) (tl fields)
                 (s \<lparr> row_count := rc, validation_errors := e2 \<rparr>)))"

text \<open>The loop \<^verbatim>\<open>for line_num, line in enumerate(f)\<close> of \<^verbatim>\<open>parse_count_matrix\<close>.\<close>

definition matrix_loop :: "string list \<Rightarrow> pyexc + scan" where
  "matrix_loop ls =
     fold_exc (\<lambda>(line_num, line). matrix_line line_num line) (enumerate 0 ls) scan_init"

definition parse_count_matrix :: "string \<Rightarrow> path \<Rightarrow> pyfile \<Rightarrow> pyexc + IngestResult" where
  "parse_count_matrix now p f =
     (let sname = stem p
      in try_except
           (let (is_valid, structure_msg) = validate_count_matrix_structure p f
            in if \<not> is_valid then
                 bind_exc (st_size f) (\<lambda>sz.
                   Inr (new_result now sname MATRIX p sz FAIL
                          (StructureValidationFailed structure_msg) sname))
               else
                 bind_exc (open_r f) (\<lambda>text.
                 bind_exc (matrix_loop (readlines text)) (\<lambda>s.
                   (let (st, msg) =
                          (if validation_errors s \<noteq> []
                           then (if length (validation_errors s) > 10 then FAIL else WARN,
                                 FoundErrors (length (validation_errors s)))
                           else (PASS, MatrixSuccessful))
                    in bind_exc (st_size f) (\<lambda>sz.
                         Inr ((new_result now sname MATRIX p sz st msg sname)
                                \<lparr> detected_format :=
                                    Some ''Count Matrix (Processed Expression Data)'',
                                  total_reads := Some (int (row_count s)),
                                  sequence_length := Some (int (col_count s) - 1) \<rparr>))))))
           (\<lambda>e. bind_exc (st_size f) (\<lambda>sz.
                  Inr (new_result now sname MATRIX p sz FAIL (ParsingError e) sname))))"

section \<open>The orchestrator and the cumulative report\<close>

text \<open>The attribute \<^verbatim>\<open>self.results\<close> of \<^verbatim>\<open>IngestPhase\<close>.\<close>

record IngestPhase =
  results :: "IngestResult list"

definition ingest ::
  "string \<Rightarrow> samtools_run \<Rightarrow> path \<Rightarrow> pyfile \<Rightarrow> string option \<Rightarrow> IngestPhase
     \<Rightarrow> pyexc + IngestResult \<times> IngestPhase" where
  "ingest now tool p f dataset_id_arg self =
     (let did = (case dataset_id_arg of None \<Rightarrow> stem p | Some d \<Rightarrow> d);
          sname = stem p;
          (kind, fmt) = detect_input_type p f
      in bind_exc
           (if kind = FASTQ then parse_fastq now p f
            else if kind = BAM then parse_bam now tool p f
            else if kind = CELL then parse_cell now p f
            else if kind = MATRIX then parse_count_matrix now p f
            else bind_exc (st_size f) (\<lambda>sz.
                   Inr (new_result now did UNKNOWN p sz FAIL UnknownFileType sname)))
           (\<lambda>result. Inr (result, self \<lparr> results := results self @ [result] \<rparr>)))"

text \<open>
  The JSON report: the object \<^verbatim>\<open>generate_report\<close> writes, its clock reading passed as
  \<open>now\<close>. The entries of \<^verbatim>\<open>results\<close> are kept as \<open>IngestResult\<close> values, for the
  dictionaries \<^verbatim>\<open>to_dict\<close> produces and \<^verbatim>\<open>json.load\<close> reads back. The persisted state is
  \<open>None\<close> when the report file does not exist or cannot be loaded.
\<close>

record report =
  report_timestamp :: string
  total_files :: nat
  report_results :: "IngestResult list"

definition generate_report :: "string \<Rightarrow> report option \<Rightarrow> IngestPhase \<Rightarrow> report" where
  "generate_report now persisted self =
     (let all_results = (case persisted of None \<Rightarrow> [] | Some r \<Rightarrow> report_results r);
          existing_samples = set (map sample_name all_results);
          all_results1 =
            fold (\<lambda>result acc. if sample_name result \<notin> existing_samples then acc @ [result] else acc)
              (results self) all_results
      in \<lparr> report_timestamp = now, total_files = length all_results1,
           report_results = all_results1 \<rparr>)"

section \<open>Concrete inputs\<close>

text \<open>
  A plain text file (its bytes are not gzip data), and a line of tab-separated fields with
  its line feed.
\<close>

definition text_file :: "string \<Rightarrow> pyfile" where
  "text_file c = File c (Inl BadGzipFile)"

fun join :: "char \<Rightarrow> string list \<Rightarrow> string" where
  "join sep [] = []"
| "join sep [x] = x"
| "join sep (x # y # ys) = x @ sep # join sep (y # ys)"

definition row :: "string list \<Rightarrow> string" where
  "row cells = join (CHR 0x09) cells @ [CHR 0x0A]"

definition bam_magic :: string where
  "bam_magic = [CHR ''B'', CHR ''A'', CHR ''M'', CHR 0x01]"






text \<open>
  A count matrix whose sixth data row begins with a comma: the structure check splits it
  at the tab, the body loop at the commas, where its second field is \<^verbatim>\<open>-3\<close>.
\<close>

definition matrix_negative_sixth_row :: string where
  "matrix_negative_sixth_row =
     row [''gene_id'', ''s1''] @ concat (replicate 5 (row [''g'', ''1'']))
     @ row ['',-3,x'', ''2'']"

text \<open>A FASTQ file of \<open>k\<close> well-formed records, and the lines of one record.\<close>

definition fastq_records :: "nat \<Rightarrow> string" where
  "fastq_records k = concat (replicate k ''@r\<newline>A\<newline>+\<newline>I\<newline>'')"

definition fastq_record_lines :: "string list" where
  "fastq_record_lines = [''@r\<newline>'', ''A\<newline>'', ''+\<newline>'', ''I\<newline>'']"

text \<open>A count matrix with one sample column and \<open>k\<close> well-formed data rows.\<close>

definition matrix_rows :: "nat \<Rightarrow> string" where
  "matrix_rows k = row [''gene_id'', ''s1''] @ concat (replicate k (row [''g'', ''1'']))"

section \<open>The status tiers as the specification words them\<close>


section \<open>Auxiliary facts\<close>

text \<open>
  The two binary64 thresholds are far from the values of ordinary literals, which gives
  \<open>round_binary64\<close> an equation that evaluates without computing them.
\<close>

lemma overflow_threshold_large: "(4294967296::rat) < 2 ^ 1024 - 2 ^ 970"
proof -
  have "(2::rat) ^ 1024 = 2 ^ 970 * 2 ^ 54" by (simp add: power_add [symmetric])
  then have a: "(2::rat) ^ 1024 - 2 ^ 970 = 2 ^ 970 * (2 ^ 54 - 1)" by (simp add: algebra_simps)
  have b: "(1::rat) \<le> 2 ^ 970" by (rule one_le_power) simp
  have c: "(4294967296::rat) < 2 ^ 54 - 1" by simp
  have d: "(0::rat) \<le> 2 ^ 54 - 1" by simp
  have "1 * ((2::rat) ^ 54 - 1) \<le> 2 ^ 970 * (2 ^ 54 - 1)"
    by (rule mult_right_mono [OF b d])
  with c a show ?thesis by (simp only: mult_1_left)
qed

lemma underflow_threshold_small: "1 / 2 ^ 1075 < (1::rat) / 4294967296"
proof -
  have "(4294967296::rat) = 2 ^ 32" by simp
  moreover have "(2::rat) ^ 32 < 2 ^ 1075" by (rule power_strict_increasing) simp_all
  ultimately have "(4294967296::rat) < 2 ^ 1075" by (simp only:)
  then show ?thesis
    by (simp only: frac_less2 divide_strict_left_mono zero_less_numeral zero_less_power
          zero_less_one mult_pos_pos)
qed

lemma round_binary64_code [code]:
  "round_binary64 neg x =
     (if x = 0 then Finite 0
      else if 1 / 4294967296 < x \<and> x < 4294967296 then Finite (if neg then - x else x)
      else if 2 ^ 1024 - 2 ^ 970 \<le> x then Infinity neg
      else if x \<le> 1 / 2 ^ 1075 then Finite 0
      else Finite (if neg then - x else x))"
proof -
  have z: "\<not> (2 ^ 1024 - 2 ^ 970 \<le> (0::rat))"
    using overflow_threshold_large by linarith
  have "\<not> 2 ^ 1024 - 2 ^ 970 \<le> x \<and> \<not> x \<le> 1 / 2 ^ 1075"
    if "1 / 4294967296 < x \<and> x < 4294967296"
    using that overflow_threshold_large underflow_threshold_small by linarith
  then show ?thesis
    unfolding round_binary64_def using z by auto
qed

lemma split_on_not_Nil: "split_on sep s \<noteq> []"
  by (induction s) (auto split: list.splits)

lemma st_size_File: "st_size (File bytes gz) = Inr (length bytes)"
  by (simp add: st_size_def)

lemma fold_append_if:
  "fold (\<lambda>x acc. if P x then acc @ [x] else acc) xs acc = acc @ filter P xs"
  by (induction xs arbitrary: acc) auto

lemma tabular_not_fastq:
  "e \<in> set [''.tsv'', ''.csv'', ''.txt''] \<Longrightarrow> e \<notin> set [''.fastq'', ''.fq'', ''.gz''] \<and> e \<noteq> ''.bam''"
  by auto

section \<open>The cumulative report\<close>

lemma generate_report_results:
  "report_results (generate_report now persisted self) =
     (case persisted of None \<Rightarrow> [] | Some r \<Rightarrow> report_results r)
     @ filter (\<lambda>x. sample_name x \<notin>
                 set (map sample_name (case persisted of None \<Rightarrow> [] | Some r \<Rightarrow> report_results r)))
         (results self)"
  by (simp add: generate_report_def Let_def fold_append_if)

lemma generate_report_total:
  "total_files (generate_report now persisted self) =
     length (report_results (generate_report now persisted self))"
  by (simp add: generate_report_def Let_def)

lemma generate_report_timestamp:
  "report_timestamp (generate_report now persisted self) = now"
  by (simp add: generate_report_def Let_def)

lemma second_merge_adds_nothing:
  "report_results (generate_report t2 (Some (generate_report t1 persisted self)) self) =
     report_results (generate_report t1 persisted self)"
proof -
  let ?old = "case persisted of None \<Rightarrow> [] | Some r \<Rightarrow> report_results r"
  let ?first = "report_results (generate_report t1 persisted self)"
  have first: "?first = ?old @ filter (\<lambda>x. sample_name x \<notin> set (map sample_name ?old)) (results self)"
    by (rule generate_report_results)
  have "sample_name x \<in> set (map sample_name ?first)" if "x \<in> set (results self)" for x
  proof (cases "sample_name x \<in> set (map sample_name ?old)")
    case True
    then show ?thesis by (simp add: first)
  next
    case False
    with that have "x \<in> set ?first" by (simp add: first)
    then show ?thesis by auto
  qed
  then have "filter (\<lambda>x. sample_name x \<notin> set (map sample_name ?first)) (results self) = []"
    by (simp add: filter_empty_conv)
  then show ?thesis
    by (simp add: generate_report_results [of t2])
qed

text \<open>
  C3 (as the code has it). Two consecutive calls of \<^verbatim>\<open>generate_report\<close> with the same
  \<^verbatim>\<open>self.results\<close>: the second call leaves the record collection and the total count of
  the persisted report as the first call wrote them, and rewrites the envelope's timestamp
  with its own clock reading.
\<close>

theorem generate_report_idempotent_results:
  "report_results (generate_report t2 (Some (generate_report t1 persisted self)) self)
     = report_results (generate_report t1 persisted self)
   \<and> total_files (generate_report t2 (Some (generate_report t1 persisted self)) self)
     = total_files (generate_report t1 persisted self)
   \<and> report_timestamp (generate_report t2 (Some (generate_report t1 persisted self)) self) = t2"
  by (simp only: second_merge_adds_nothing generate_report_total generate_report_timestamp)

text \<open>
  C3 (as stated) fails: with one new record and two different clock readings the persisted
  report after the second merge differs from the one after the first.
\<close>

theorem generate_report_not_identical_counterexample:
  "generate_report ''2026-01-01T00:00:01''
     (Some (generate_report ''2026-01-01T00:00:00'' None
        \<lparr> results = [new_result ''t'' ''s1'' UNKNOWN ''s1.dat'' 0 FAIL UnknownFileType ''s1''] \<rparr>))
     \<lparr> results = [new_result ''t'' ''s1'' UNKNOWN ''s1.dat'' 0 FAIL UnknownFileType ''s1''] \<rparr>
   \<noteq> generate_report ''2026-01-01T00:00:00'' None
        \<lparr> results = [new_result ''t'' ''s1'' UNKNOWN ''s1.dat'' 0 FAIL UnknownFileType ''s1''] \<rparr>"
  by (simp add: generate_report_def Let_def)

section \<open>The sniffer's order on tabular files\<close>

text \<open>
  C5. On a file whose lower-cased suffix is \<^verbatim>\<open>.tsv\<close>, \<^verbatim>\<open>.csv\<close> or \<^verbatim>\<open>.txt\<close> the CELL header
  check is consulted before the count-matrix check: when it passes the file is CELL,
  whether or not the count-matrix rule holds too, and a file classified MATRIX has failed
  the CELL header check.
\<close>

theorem tabular_cell_before_matrix:
  assumes "lower (suffix p) \<in> set [''.tsv'', ''.csv'', ''.txt'']"
  shows "(fst (validate_cell_header p f) \<longrightarrow> fst (detect_input_type p f) = CELL)
       \<and> (fst (detect_input_type p f) = MATRIX \<longrightarrow> \<not> fst (validate_cell_header p f))"
  using tabular_not_fastq [OF assms] assms
  by (simp add: detect_input_type_def Let_def)

theorem tabular_cell_before_matrix_witness:
  "lower (suffix ''array.tsv'') \<in> set [''.tsv'', ''.csv'', ''.txt'']
   \<and> fst (validate_cell_header ''array.tsv''
            (text_file (row [''probe_id'', ''gene'', ''signal''] @ row [''p1'', ''1'', ''2''])))
   \<and> fst (validate_count_matrix_structure ''array.tsv''
            (text_file (row [''probe_id'', ''gene'', ''signal''] @ row [''p1'', ''1'', ''2''])))
   \<and> fst (detect_input_type ''array.tsv''
            (text_file (row [''probe_id'', ''gene'', ''signal''] @ row [''p1'', ''1'', ''2'']))) = CELL"
proof -
  let ?f = "text_file (row [''probe_id'', ''gene'', ''signal''] @ row [''p1'', ''1'', ''2''])"
  have ext: "lower (suffix ''array.tsv'') \<in> set [''.tsv'', ''.csv'', ''.txt'']"
    by code_simp
  have cell: "fst (validate_cell_header ''array.tsv'' ?f)"
    by code_simp
  have matrix: "fst (validate_count_matrix_structure ''array.tsv'' ?f)"
    by code_simp
  have "fst (detect_input_type ''array.tsv'' ?f) = CELL"
    using tabular_cell_before_matrix [OF ext, of ?f] cell by blast
  with ext cell matrix show ?thesis by blast
qed

section \<open>Failures become records\<close>

lemma try_except_returns:
  "(\<And>e. \<exists>r. handler e = Inr r) \<Longrightarrow> \<exists>r. try_except body handler = Inr r"
  by (cases body) (auto simp: try_except_def)

lemma parse_fastq_returns: "\<exists>r. parse_fastq now p (File bytes gz) = Inr r"
  unfolding parse_fastq_def Let_def
  by (rule try_except_returns) (simp add: st_size_File bind_exc_def)

lemma parse_bam_returns: "\<exists>r. parse_bam now tool p (File bytes gz) = Inr r"
  unfolding parse_bam_def Let_def
  by (rule try_except_returns) (simp add: st_size_File bind_exc_def)

lemma parse_cell_returns: "\<exists>r. parse_cell now p (File bytes gz) = Inr r"
  unfolding parse_cell_def Let_def
  by (rule try_except_returns) (simp add: st_size_File bind_exc_def)

lemma parse_count_matrix_returns: "\<exists>r. parse_count_matrix now p (File bytes gz) = Inr r"
  unfolding parse_count_matrix_def Let_def
  by (rule try_except_returns) (simp add: st_size_File bind_exc_def)

lemma ingest_returns:
  "\<exists>r. ingest now tool p (File bytes gz) did self = Inr (r, self \<lparr> results := results self @ [r] \<rparr>)"
proof -
  obtain a where a: "parse_fastq now p (File bytes gz) = Inr a" using parse_fastq_returns by blast
  obtain b where b: "parse_bam now tool p (File bytes gz) = Inr b" using parse_bam_returns by blast
  obtain c where c: "parse_cell now p (File bytes gz) = Inr c" using parse_cell_returns by blast
  obtain d where d: "parse_count_matrix now p (File bytes gz) = Inr d"
    using parse_count_matrix_returns by blast
  show ?thesis
    by (simp add: ingest_def Let_def split_beta bind_exc_def st_size_File a b c d)
qed

lemma empty_first_four_lines: "first_four_lines [] = [[], [], [], []]"
  by code_simp

lemma empty_fastq_header:
  "validate_fastq_header p (File [] (Inr [])) = (False, HeaderMustStartAt [])"
  by (simp add: validate_fastq_header_def fastq_open_def gzip_open_def open_r_def
        empty_first_four_lines startswith_def)

lemma empty_bam_magic:
  "validate_bam_magic p (File [] gz) = (False, InvalidBamMagic [])"
  by (simp add: validate_bam_magic_def read4_def)

lemma empty_cell_header:
  "validate_cell_header p (File [] gz) = (False, NoProbeColumn)"
proof -
  have "split_on (CHR 0x09) (strip (readline (readlines []) 0)) = [[]]" by code_simp
  then show ?thesis
    by (simp add: validate_cell_header_def open_r_def Let_def lower_def)
qed

lemma empty_matrix_structure:
  "validate_count_matrix_structure p (File [] gz) = (False, NoDataRow)"
  by (simp add: validate_count_matrix_structure_def open_r_def)

lemma empty_detect: "fst (detect_input_type p (File [] (Inr []))) = UNKNOWN"
  by (simp add: detect_input_type_def Let_def empty_fastq_header empty_bam_magic
        empty_cell_header empty_matrix_structure)

text \<open>
  C1 (as the code has it). For every path at which a file exists, \<^verbatim>\<open>ingest\<close> and each
  \<^verbatim>\<open>parse_*\<close> validator return a result record and never raise (\<^verbatim>\<open>ingest\<close> also appends it
  to \<^verbatim>\<open>self.results\<close>); for an empty file the record has \<^verbatim>\<open>validation_status\<close> FAIL.
\<close>

theorem existing_file_yields_record:
  "(\<exists>r. ingest now tool p (File bytes gz) did self
           = Inr (r, self \<lparr> results := results self @ [r] \<rparr>))
   \<and> (\<exists>r. parse_fastq now p (File bytes gz) = Inr r)
   \<and> (\<exists>r. parse_bam now tool p (File bytes gz) = Inr r)
   \<and> (\<exists>r. parse_cell now p (File bytes gz) = Inr r)
   \<and> (\<exists>r. parse_count_matrix now p (File bytes gz) = Inr r)
   \<and> map_sum id (\<lambda>x. validation_status (fst x))
         (ingest now tool p (File [] (Inr [])) did self) = Inr FAIL
   \<and> map_sum id validation_status (parse_fastq now p (File [] (Inr []))) = Inr FAIL
   \<and> map_sum id validation_status (parse_bam now tool p (File [] (Inr []))) = Inr FAIL
   \<and> map_sum id validation_status (parse_cell now p (File [] (Inr []))) = Inr FAIL
   \<and> map_sum id validation_status (parse_count_matrix now p (File [] (Inr []))) = Inr FAIL"
proof -
  have i: "map_sum id (\<lambda>x. validation_status (fst x))
             (ingest now tool p (File [] (Inr [])) did self) = Inr FAIL"
    using empty_detect [of p]
    by (simp add: ingest_def Let_def split_beta bind_exc_def st_size_File new_result_def)
  have a: "map_sum id validation_status (parse_fastq now p (File [] (Inr []))) = Inr FAIL"
    by (simp add: parse_fastq_def Let_def empty_fastq_header try_except_def bind_exc_def
          st_size_File new_result_def)
  have b: "map_sum id validation_status (parse_bam now tool p (File [] (Inr []))) = Inr FAIL"
    by (simp add: parse_bam_def Let_def empty_bam_magic try_except_def bind_exc_def
          st_size_File new_result_def)
  have c: "map_sum id validation_status (parse_cell now p (File [] (Inr []))) = Inr FAIL"
    by (simp add: parse_cell_def Let_def empty_cell_header try_except_def bind_exc_def
          st_size_File new_result_def)
  have d: "map_sum id validation_status (parse_count_matrix now p (File [] (Inr []))) = Inr FAIL"
    by (simp add: parse_count_matrix_def Let_def empty_matrix_structure try_except_def
          bind_exc_def st_size_File new_result_def)
  show ?thesis
    by (intro conjI ingest_returns parse_fastq_returns parse_bam_returns parse_cell_returns
          parse_count_matrix_returns i a b c d)
qed

text \<open>
  C1 (as stated) fails. At a path with no file every handler's own call of
  \<^verbatim>\<open>file_path.stat()\<close> raises \<^verbatim>\<open>FileNotFoundError\<close> to the caller, from \<^verbatim>\<open>ingest\<close> and from each
  validator; and a FASTQ file cut in the middle of its second record is PASS, not FAIL.
\<close>

theorem missing_or_truncated_file_counterexample:
  "ingest ''t'' (ToolRaises SubprocessError) ''reads.fastq'' NoFile None \<lparr> results = [] \<rparr>
     = Inl FileNotFoundError
   \<and> parse_fastq ''t'' ''reads.fastq'' NoFile = Inl FileNotFoundError
   \<and> parse_bam ''t'' (ToolRaises SubprocessError) ''reads.bam'' NoFile = Inl FileNotFoundError
   \<and> parse_cell ''t'' ''array.tsv'' NoFile = Inl FileNotFoundError
   \<and> parse_count_matrix ''t'' ''counts.tsv'' NoFile = Inl FileNotFoundError
   \<and> map_sum id (\<lambda>x. validation_status (fst x))
        (ingest ''t'' (ToolRaises SubprocessError) ''reads.fastq''
           (text_file ''@r1\<newline>ACGT\<newline>+\<newline>IIII\<newline>@r2\<newline>AC'') None \<lparr> results = [] \<rparr>)
     = Inr PASS"
  by (intro conjI; code_simp)

section \<open>Header and magic failures short-circuit\<close>

text \<open>
  C7. For a file that exists: when \<^verbatim>\<open>validate_bam_magic\<close> (resp. \<^verbatim>\<open>validate_fastq_header\<close>)
  fails, \<^verbatim>\<open>parse_bam\<close> (resp. \<^verbatim>\<open>parse_fastq\<close>) returns at once the FAIL record built from the
  confirmation message alone, whatever the tool would report and whatever the body holds;
  in particular a file whose first four bytes are not the BAM magic is FAIL.
\<close>

theorem header_failure_short_circuits:
  "(\<not> fst (validate_bam_magic p (File bytes gz)) \<longrightarrow>
      parse_bam now tool p (File bytes gz) =
        Inr (new_result now (replace ''.bam'' [] (stem p)) BAM p (length bytes) FAIL
               (MagicValidationFailed (snd (validate_bam_magic p (File bytes gz))))
               (replace ''.bam'' [] (stem p))))
   \<and> (\<not> fst (validate_fastq_header p (File bytes gz)) \<longrightarrow>
      parse_fastq now p (File bytes gz) =
        Inr (new_result now (fastq_sample_name p) FASTQ p (length bytes) FAIL
               (HeaderValidationFailed (snd (validate_fastq_header p (File bytes gz))))
               (fastq_sample_name p)))
   \<and> (take 4 bytes \<noteq> bam_magic \<longrightarrow>
      map_sum id validation_status (parse_bam now tool p (File bytes gz)) = Inr FAIL)"
proof -
  have m: "take 4 bytes \<noteq> bam_magic \<Longrightarrow> \<not> fst (validate_bam_magic p (File bytes gz))"
    by (simp add: validate_bam_magic_def read4_def bam_magic_def)
  have a: "\<not> fst (validate_bam_magic p (File bytes gz)) \<Longrightarrow>
      parse_bam now tool p (File bytes gz) =
        Inr (new_result now (replace ''.bam'' [] (stem p)) BAM p (length bytes) FAIL
               (MagicValidationFailed (snd (validate_bam_magic p (File bytes gz))))
               (replace ''.bam'' [] (stem p)))"
    by (simp add: parse_bam_def Let_def split_beta try_except_def bind_exc_def st_size_File)
  have b: "\<not> fst (validate_fastq_header p (File bytes gz)) \<Longrightarrow>
      parse_fastq now p (File bytes gz) =
        Inr (new_result now (fastq_sample_name p) FASTQ p (length bytes) FAIL
               (HeaderValidationFailed (snd (validate_fastq_header p (File bytes gz))))
               (fastq_sample_name p))"
    by (simp add: parse_fastq_def Let_def split_beta try_except_def bind_exc_def st_size_File)
  have c: "take 4 bytes \<noteq> bam_magic \<Longrightarrow>
      map_sum id validation_status (parse_bam now tool p (File bytes gz)) = Inr FAIL"
    using a m by (simp add: new_result_def)
  from a b c show ?thesis by blast
qed

theorem header_failure_short_circuits_witness:
  "take 4 ''BAX!payload'' \<noteq> bam_magic
   \<and> \<not> fst (validate_bam_magic ''aln.bam'' (text_file ''BAX!payload''))
   \<and> \<not> fst (validate_fastq_header ''aln.bam'' (text_file ''BAX!payload''))
   \<and> map_sum id validation_status
        (parse_bam ''t'' (Completed 0 ''12 + 0 in total'') ''aln.bam'' (text_file ''BAX!payload''))
      = Inr FAIL
   \<and> map_sum id validation_status (parse_fastq ''t'' ''aln.bam'' (text_file ''BAX!payload''))
      = Inr FAIL"
proof -
  let ?f = "File ''BAX!payload'' (Inl BadGzipFile)"
  have h1: "take 4 ''BAX!payload'' \<noteq> bam_magic" by code_simp
  have h2: "\<not> fst (validate_bam_magic ''aln.bam'' ?f)" by code_simp
  have h3: "\<not> fst (validate_fastq_header ''aln.bam'' ?f)" by code_simp
  note t = header_failure_short_circuits
             [of "''aln.bam''" "''BAX!payload''" "Inl BadGzipFile" "''t''"
                 "Completed 0 ''12 + 0 in total''"]
  have c1: "map_sum id validation_status
              (parse_bam ''t'' (Completed 0 ''12 + 0 in total'') ''aln.bam'' ?f) = Inr FAIL"
    using t h1 by blast
  have "parse_fastq ''t'' ''aln.bam'' ?f =
        Inr (new_result ''t'' (fastq_sample_name ''aln.bam'') FASTQ ''aln.bam''
               (length ''BAX!payload'') FAIL
               (HeaderValidationFailed (snd (validate_fastq_header ''aln.bam'' ?f)))
               (fastq_sample_name ''aln.bam''))"
    using t h3 by blast
  then have c2: "map_sum id validation_status (parse_fastq ''t'' ''aln.bam'' ?f) = Inr FAIL"
    by (simp add: new_result_def)
  from h1 h2 h3 c1 c2 show ?thesis unfolding text_file_def by blast
qed

section \<open>The external tool never downgrades a BAM file\<close>

text \<open>
  C8. For a file with valid BAM magic bytes \<^verbatim>\<open>parse_bam\<close> returns PASS whatever the outcome
  of the tool; when the tool raises (missing, timeout) or exits non-zero, \<^verbatim>\<open>total_reads\<close>
  and \<^verbatim>\<open>is_paired_end\<close> are \<^verbatim>\<open>None\<close>.
\<close>

theorem samtools_failure_keeps_pass:
  assumes "fst (validate_bam_magic p f)"
  shows "map_sum id validation_status (parse_bam now tool p f) = Inr PASS
       \<and> map_sum id (\<lambda>r. (validation_status r, total_reads r, is_paired_end r))
            (parse_bam now (ToolRaises e) p f) = Inr (PASS, None, None)
       \<and> (returncode \<noteq> 0 \<longrightarrow>
            map_sum id (\<lambda>r. (validation_status r, total_reads r, is_paired_end r))
              (parse_bam now (Completed returncode out) p f) = Inr (PASS, None, None))"
proof -
  obtain bytes gz where f: "f = File bytes gz"
    using assms by (cases f) (simp_all add: validate_bam_magic_def read4_def)
  have st: "fst (samtools_flagstat tool) = PASS"
    by (simp add: samtools_flagstat_def split: samtools_run.splits sum.splits)
  show ?thesis
    using assms st unfolding f
    by (simp add: parse_bam_def Let_def split_beta try_except_def bind_exc_def st_size_File
          new_result_def samtools_flagstat_def)
qed

theorem samtools_failure_keeps_pass_witness:
  "fst (validate_bam_magic ''aln.bam'' (text_file (bam_magic @ ''payload'')))
   \<and> map_sum id (\<lambda>r. (validation_status r, total_reads r, is_paired_end r))
        (parse_bam ''t'' (ToolRaises SubprocessError) ''aln.bam''
           (text_file (bam_magic @ ''payload''))) = Inr (PASS, None, None)
   \<and> map_sum id (\<lambda>r. (validation_status r, total_reads r, is_paired_end r))
        (parse_bam ''t'' (Completed 1 []) ''aln.bam''
           (text_file (bam_magic @ ''payload''))) = Inr (PASS, None, None)"
proof -
  have h: "fst (validate_bam_magic ''aln.bam'' (text_file (bam_magic @ ''payload'')))"
    by code_simp
  have n: "(1::int) \<noteq> 0" by simp
  from samtools_failure_keeps_pass
         [OF h, of "''t''" "ToolRaises SubprocessError" SubprocessError 1 "[]"] n h
  show ?thesis by blast
qed

section \<open>The status tier policy\<close>




section \<open>The four header lines of a FASTQ file\<close>

lemma first_four_lines_length: "length (first_four_lines content) = 4"
  by (simp add: first_four_lines_def)

lemma never_fewer_than_four: "snd (validate_fastq_header p f) \<noteq> FewerThan4Lines"
  by (simp add: validate_fastq_header_def Let_def first_four_lines_length split: sum.splits)

lemma readline_beyond: "length ls \<le> i \<Longrightarrow> strip (readline ls i) = []"
  by (simp add: readline_def strip_def rstrip_def lstrip_def)

lemma first_four_lines_nth:
  "i < 4 \<Longrightarrow> first_four_lines content ! i = strip (readline (readlines content) i)"
  by (simp add: first_four_lines_def)

text \<open>
  C10 (as the code has it). The four \<^verbatim>\<open>readline\<close> calls of \<^verbatim>\<open>validate_fastq_header\<close> always
  give four strings, so the answer \<^verbatim>\<open>File has fewer than 4 lines\<close> is never returned. An
  empty file, and any file whose first line does not start with \<^verbatim>\<open>@\<close>, is rejected by the
  header check; a file of fewer than three lines whose first line starts with \<^verbatim>\<open>@\<close> passes
  that check and is rejected by the check of the plus line.
\<close>

theorem fastq_header_short_files:
  "length (first_four_lines content) = 4
   \<and> snd (validate_fastq_header p f) \<noteq> FewerThan4Lines
   \<and> (fastq_open p f = Inr [] \<longrightarrow>
        validate_fastq_header p f = (False, HeaderMustStartAt []))
   \<and> (fastq_open p f = Inr content
        \<and> \<not> startswith (strip (readline (readlines content) 0)) ''@'' \<longrightarrow>
        validate_fastq_header p f
          = (False, HeaderMustStartAt (take 20 (strip (readline (readlines content) 0)))))
   \<and> (fastq_open p f = Inr content
        \<and> startswith (strip (readline (readlines content) 0)) ''@''
        \<and> length (readlines content) < 3 \<longrightarrow>
        validate_fastq_header p f = (False, PlusMustStartPlus []))"
proof -
  have e: "validate_fastq_header p f = (False, HeaderMustStartAt [])"
    if "fastq_open p f = Inr []"
    using that
    by (simp add: validate_fastq_header_def Let_def first_four_lines_length
          first_four_lines_nth readline_def strip_def rstrip_def lstrip_def startswith_def)
  have a: "validate_fastq_header p f
          = (False, HeaderMustStartAt (take 20 (strip (readline (readlines content) 0))))"
    if "fastq_open p f = Inr content"
      and "\<not> startswith (strip (readline (readlines content) 0)) ''@''"
    using that
    by (simp add: validate_fastq_header_def Let_def first_four_lines_length first_four_lines_nth)
  have b: "validate_fastq_header p f = (False, PlusMustStartPlus [])"
    if "fastq_open p f = Inr content"
      and "startswith (strip (readline (readlines content) 0)) ''@''"
      and "length (readlines content) < 3"
  proof -
    have "strip (readline (readlines content) 2) = []"
      using that(3) by (intro readline_beyond) simp
    with that show ?thesis
      by (simp add: validate_fastq_header_def Let_def first_four_lines_length
            first_four_lines_nth startswith_def)
  qed
  from first_four_lines_length never_fewer_than_four e a b show ?thesis by blast
qed

theorem fastq_header_short_files_witness:
  "fastq_open ''s.fastq'' (text_file []) = Inr []
   \<and> validate_fastq_header ''s.fastq'' (text_file []) = (False, HeaderMustStartAt [])
   \<and> fastq_open ''s.fastq'' (text_file ''r1\<newline>ACGT\<newline>'') = Inr ''r1\<newline>ACGT\<newline>''
   \<and> \<not> startswith (strip (readline (readlines ''r1\<newline>ACGT\<newline>'') 0)) ''@''
   \<and> validate_fastq_header ''s.fastq'' (text_file ''r1\<newline>ACGT\<newline>'')
       = (False, HeaderMustStartAt ''r1'')
   \<and> fastq_open ''s.fastq'' (text_file ''@r1\<newline>ACGT\<newline>'') = Inr ''@r1\<newline>ACGT\<newline>''
   \<and> startswith (strip (readline (readlines ''@r1\<newline>ACGT\<newline>'') 0)) ''@''
   \<and> length (readlines ''@r1\<newline>ACGT\<newline>'') < 3
   \<and> validate_fastq_header ''s.fastq'' (text_file ''@r1\<newline>ACGT\<newline>'')
       = (False, PlusMustStartPlus [])"
proof -
  note t = fastq_header_short_files
  have o0: "fastq_open ''s.fastq'' (text_file []) = Inr []" by code_simp
  have c0: "validate_fastq_header ''s.fastq'' (text_file []) = (False, HeaderMustStartAt [])"
    using t [of "[]" "''s.fastq''" "text_file []"] o0 by blast
  have o1: "fastq_open ''s.fastq'' (text_file ''r1\<newline>ACGT\<newline>'') = Inr ''r1\<newline>ACGT\<newline>''"
    by code_simp
  have h1: "\<not> startswith (strip (readline (readlines ''r1\<newline>ACGT\<newline>'') 0)) ''@''"
    by code_simp
  have v1: "take 20 (strip (readline (readlines ''r1\<newline>ACGT\<newline>'') 0)) = ''r1''"
    by code_simp
  have "validate_fastq_header ''s.fastq'' (text_file ''r1\<newline>ACGT\<newline>'')
       = (False, HeaderMustStartAt (take 20 (strip (readline (readlines ''r1\<newline>ACGT\<newline>'') 0))))"
    using t [of "''r1\<newline>ACGT\<newline>''" "''s.fastq''" "text_file ''r1\<newline>ACGT\<newline>''"] o1 h1
    by blast
  then have c1: "validate_fastq_header ''s.fastq'' (text_file ''r1\<newline>ACGT\<newline>'')
       = (False, HeaderMustStartAt ''r1'')"
    by (simp only: v1)
  have o2: "fastq_open ''s.fastq'' (text_file ''@r1\<newline>ACGT\<newline>'') = Inr ''@r1\<newline>ACGT\<newline>''"
    by code_simp
  have h2: "startswith (strip (readline (readlines ''@r1\<newline>ACGT\<newline>'') 0)) ''@''"
    by code_simp
  have n2: "length (readlines ''@r1\<newline>ACGT\<newline>'') < 3" by code_simp
  have c2: "validate_fastq_header ''s.fastq'' (text_file ''@r1\<newline>ACGT\<newline>'')
       = (False, PlusMustStartPlus [])"
    using t [of "''@r1\<newline>ACGT\<newline>''" "''s.fastq''" "text_file ''@r1\<newline>ACGT\<newline>''"] o2 h2 n2
    by blast
  show ?thesis by (intro conjI o0 c0 o1 h1 c1 o2 h2 n2 c2)
qed

text \<open>
  C10 (as stated) fails: a two-line file with a well-formed header line is rejected by the
  plus-line check, not by the header check.
\<close>

theorem fastq_header_short_file_counterexample:
  "length (readlines ''@r1\<newline>ACGT\<newline>'') = 2
   \<and> validate_fastq_header ''s.fastq'' (text_file ''@r1\<newline>ACGT\<newline>'')
       = (False, PlusMustStartPlus [])"
  by (intro conjI; code_simp)

section \<open>Negative and non-integer counts\<close>

lemma float_3_5: "py_float ''3.5'' = Some (Finite (7 / 2))"
  by code_simp

lemma float_minus_3: "py_float ''-3'' = Some (Finite (- 3))"
  by code_simp

text \<open>
  C9 (as the code has it). In the body loop of \<^verbatim>\<open>parse_count_matrix\<close> a field that reads as
  a finite non-negative number, integer or not (such as \<^verbatim>\<open>3.5\<close>), never adds to
  \<^verbatim>\<open>validation_errors\<close>; a non-integer one is logged as an advisory in the first five data
  rows. A field that reads as a finite negative number (such as \<^verbatim>\<open>-3\<close>) adds one finding to
  \<^verbatim>\<open>validation_errors\<close> when it stands in one of the first five data rows, and nothing
  from the sixth data row on.
\<close>

theorem matrix_field_negative_vs_non_integer:
  "(py_float field = Some (Finite x) \<and> 0 \<le> x \<longrightarrow>
      map_sum id validation_errors (matrix_field line_num rc field s) = Inr (validation_errors s)
      \<and> map_sum id warnings (matrix_field line_num rc field s)
          = Inr (if x \<noteq> of_int \<lfloor>x\<rfloor> \<and> rc \<le> 5
                 then warnings s @ [NonIntegerCount line_num (Finite x)] else warnings s))
   \<and> (py_float field = Some (Finite x) \<and> x < 0 \<longrightarrow>
      map_sum id validation_errors (matrix_field line_num rc field s)
        = Inr (if rc \<le> 5 then validation_errors s @ [NegativeCount line_num (Finite x)]
               else validation_errors s))
   \<and> py_float ''3.5'' = Some (Finite (7 / 2))
   \<and> py_float ''-3'' = Some (Finite (- 3))"
proof -
  have a: "map_sum id validation_errors (matrix_field line_num rc field s) = Inr (validation_errors s)
      \<and> map_sum id warnings (matrix_field line_num rc field s)
          = Inr (if x \<noteq> of_int \<lfloor>x\<rfloor> \<and> rc \<le> 5
                 then warnings s @ [NonIntegerCount line_num (Finite x)] else warnings s)"
    if "py_float field = Some (Finite x)" and "0 \<le> x"
    using that
    by (simp add: matrix_field_def Let_def float_negative_def float_not_integral_def)
  have b: "map_sum id validation_errors (matrix_field line_num rc field s)
        = Inr (if rc \<le> 5 then validation_errors s @ [NegativeCount line_num (Finite x)]
               else validation_errors s)"
    if "py_float field = Some (Finite x)" and "x < 0"
    using that
    by (simp add: matrix_field_def Let_def float_negative_def float_not_integral_def)
  from a b float_3_5 float_minus_3 show ?thesis by blast
qed

theorem matrix_field_negative_vs_non_integer_witness:
  "py_float ''3.5'' = Some (Finite (7 / 2)) \<and> (0::rat) \<le> 7 / 2
   \<and> map_sum id validation_errors (matrix_field 1 1 ''3.5'' scan_init) = Inr []
   \<and> map_sum id warnings (matrix_field 1 1 ''3.5'' scan_init)
       = Inr [NonIntegerCount 1 (Finite (7 / 2))]
   \<and> py_float ''-3'' = Some (Finite (- 3)) \<and> (- 3 :: rat) < 0
   \<and> map_sum id validation_errors (matrix_field 1 1 ''-3'' scan_init)
       = Inr [NegativeCount 1 (Finite (- 3))]
   \<and> map_sum id validation_errors (matrix_field 6 6 ''-3'' scan_init) = Inr []"
proof -
  note t = matrix_field_negative_vs_non_integer
  have p1: "py_float ''3.5'' = Some (Finite (7 / 2))" and p2: "py_float ''-3'' = Some (Finite (- 3))"
    using t [of "[]" 0 0 0 scan_init] by blast+
  have q1: "(0::rat) \<le> 7 / 2" and q2: "(- 3 :: rat) < 0" by simp_all
  have ni: "(7 / 2 :: rat) \<noteq> of_int \<lfloor>7 / 2 :: rat\<rfloor>"
  proof -
    have "\<lfloor>7 / 2 :: rat\<rfloor> = 3" by (simp add: floor_eq_iff)
    then show ?thesis by simp
  qed
  have e1: "map_sum id validation_errors (matrix_field 1 1 ''3.5'' scan_init) = Inr []"
    using t [of "''3.5''" "7 / 2" 1 1 scan_init] p1 q1 by (simp add: scan_init_def)
  have w1: "map_sum id warnings (matrix_field 1 1 ''3.5'' scan_init)
       = Inr [NonIntegerCount 1 (Finite (7 / 2))]"
    using t [of "''3.5''" "7 / 2" 1 1 scan_init] p1 q1 ni by (simp add: scan_init_def)
  have e2: "map_sum id validation_errors (matrix_field 1 1 ''-3'' scan_init)
       = Inr [NegativeCount 1 (Finite (- 3))]"
    using t [of "''-3''" "- 3" 1 1 scan_init] p2 q2 by (simp add: scan_init_def)
  have e3: "map_sum id validation_errors (matrix_field 6 6 ''-3'' scan_init) = Inr []"
    using t [of "''-3''" "- 3" 6 6 scan_init] p2 q2 by (simp add: scan_init_def)
  show ?thesis by (intro conjI p1 q1 e1 w1 p2 q2 e2 e3)
qed

text \<open>
  C9 (as stated) fails: the field \<^verbatim>\<open>-3\<close> in the sixth data row of a file that passes the
  structure check is not added to \<^verbatim>\<open>validation_errors\<close>, and the file is PASS.
\<close>

theorem negative_count_sixth_row_counterexample:
  "split_on (CHR '','') (strip (row ['',-3,x'', ''2''])) ! 1 = ''-3''
   \<and> fst (validate_count_matrix_structure ''counts.tsv'' (text_file matrix_negative_sixth_row))
   \<and> map_sum id validation_errors (matrix_loop (readlines matrix_negative_sixth_row)) = Inr []
   \<and> map_sum id (\<lambda>r. (validation_status r, validation_message r, total_reads r))
        (parse_count_matrix ''t'' ''counts.tsv'' (text_file matrix_negative_sixth_row))
       = Inr (PASS, MatrixSuccessful, Some 6)"
  by (intro conjI; code_simp)

section \<open>The sampling cap of the FASTQ validator\<close>

lemma readlines_record:
  "readlines (''@r\<newline>A\<newline>+\<newline>I\<newline>'' @ rest) = fastq_record_lines @ readlines rest"
  by (simp add: fastq_record_lines_def)

lemma readlines_fastq_records:
  "readlines (fastq_records k) = concat (replicate k fastq_record_lines)"
  unfolding fastq_records_def
  by (induction k) (simp_all only: replicate.simps concat.simps readlines_record readlines.simps)

lemma good_record_errors: "fastq_record_errors n [''@r'', ''A'', ''+'', ''I''] = []"
  by (simp add: fastq_record_errors_def startswith_def valid_nucleotides_def)

lemma rstrip_nl_record:
  "rstrip_nl ''@r\<newline>'' = ''@r''" "rstrip_nl ''A\<newline>'' = ''A''"
  "rstrip_nl ''+\<newline>'' = ''+''" "rstrip_nl ''I\<newline>'' = ''I''"
  by (simp_all add: rstrip_nl_def)

lemma fastq_loop_record:
  "fastq_loop (fastq_record_lines @ rest) [] rc errs lens =
     (if 1000 < rc + 1 then (rc + 1, errs, lens @ [1])
      else fastq_loop rest [] (rc + 1) errs (lens @ [1]))"
  by (simp add: fastq_record_lines_def Let_def rstrip_nl_record good_record_errors)

lemma fastq_loop_records:
  "rc \<le> 1000 \<Longrightarrow>
     fst (fastq_loop (concat (replicate k fastq_record_lines)) [] rc errs lens)
       = min (rc + k) 1001"
proof (induction k arbitrary: rc lens)
  case 0
  then show ?case by simp
next
  case (Suc k)
  show ?case
  proof (cases "1000 < rc + 1")
    case True
    with Suc.prems show ?thesis
      by (simp only: replicate.simps concat.simps fastq_loop_record) simp
  next
    case False
    then have "rc + 1 \<le> 1000" by simp
    from Suc.IH [OF this] False show ?thesis
      by (simp only: replicate.simps concat.simps fastq_loop_record) simp
  qed
qed

lemma fastq_loop_bound:
  "rc \<le> 1000 \<Longrightarrow> fst (fastq_loop ls buf rc errs lens) \<le> 1001"
proof (induction ls buf rc errs lens rule: fastq_loop.induct)
  case (1 lines read_count validation_errors sequence_lengths)
  then show ?case by simp
next
  case (2 line rest lines read_count validation_errors sequence_lengths)
  show ?case
  proof (cases "length (lines @ [rstrip_nl line]) = 4")
    case len: True
    show ?thesis
    proof (cases "1000 < read_count + 1")
      case True
      with len "2.prems" show ?thesis by (simp add: Let_def)
    next
      case False
      then have "read_count + 1 \<le> 1000" by simp
      with len False "2.IH"(1) [OF refl len refl refl refl] show ?thesis
        by (simp add: Let_def)
    qed
  next
    case False
    with "2.IH"(2) [OF refl False "2.prems"] show ?thesis by (simp add: Let_def)
  qed
qed

lemma parse_fastq_total_reads:
  assumes "fst (validate_fastq_header p f)" and "fastq_open p f = Inr content"
  shows "map_sum id total_reads (parse_fastq now p f)
           = Inr (Some (int (fst (fastq_loop (readlines content) [] 0 [] []))))"
proof -
  obtain n where "st_size f = Inr n"
    using assms(2)
    by (cases f) (simp_all add: fastq_open_def gzip_open_def open_r_def st_size_def split: if_splits)
  with assms show ?thesis
    by (simp add: parse_fastq_def Let_def split_beta try_except_def bind_exc_def new_result_def)
qed

lemma fastq_records_header:
  "validate_fastq_header ''big.fastq'' (text_file (fastq_records (Suc k))) = (True, ValidFastq)"
proof -
  have o: "fastq_open ''big.fastq'' (text_file (fastq_records (Suc k))) = Inr (fastq_records (Suc k))"
  proof -
    have "suffix ''big.fastq'' \<noteq> ''.gz''" by code_simp
    then show ?thesis by (simp add: fastq_open_def text_file_def open_r_def)
  qed
  have l: "first_four_lines (fastq_records (Suc k)) = [''@r'', ''A'', ''+'', ''I'']"
  proof -
    have s: "strip ''@r\<newline>'' = ''@r''" "strip ''A\<newline>'' = ''A''" "strip ''+\<newline>'' = ''+''"
      "strip ''I\<newline>'' = ''I''"
      by code_simp+
    have u: "[0 ..< 4] = [0, 1, 2, 3::nat]" by (simp add: upt_rec)
    show ?thesis
      by (simp add: first_four_lines_def readlines_fastq_records fastq_record_lines_def
            readline_def u s)
  qed
  have q: "\<not> list_ex (\<lambda>c. (of_char c :: nat) < 33 \<or> 126 < (of_char c :: nat)) ''I''"
    by simp
  show ?thesis
    using q by (simp add: validate_fastq_header_def o l startswith_def valid_nucleotides_def)
qed

text \<open>
  C6 (the code at the failing input). The loop of \<^verbatim>\<open>parse_fastq\<close> breaks after the record
  that makes \<^verbatim>\<open>read_count\<close> exceed 1000: on a file of 1001 well-formed records, and on one
  of 5000, \<^verbatim>\<open>total_reads\<close> is 1001; it never exceeds 1001.
\<close>

theorem parse_fastq_examines_1001_records:
  "map_sum id total_reads (parse_fastq ''t'' ''big.fastq'' (text_file (fastq_records 1001)))
     = Inr (Some 1001)
   \<and> map_sum id total_reads (parse_fastq ''t'' ''big.fastq'' (text_file (fastq_records 5000)))
     = Inr (Some 1001)
   \<and> fst (fastq_loop (readlines content) [] 0 [] []) \<le> 1001"
proof -
  have r: "map_sum id total_reads (parse_fastq ''t'' ''big.fastq'' (text_file (fastq_records (Suc k))))
        = Inr (Some (int (min (Suc k) 1001)))" for k
  proof -
    have o: "fastq_open ''big.fastq'' (text_file (fastq_records (Suc k))) = Inr (fastq_records (Suc k))"
    proof -
      have "suffix ''big.fastq'' \<noteq> ''.gz''" by code_simp
      then show ?thesis by (simp add: fastq_open_def text_file_def open_r_def)
    qed
    have h: "fst (validate_fastq_header ''big.fastq'' (text_file (fastq_records (Suc k))))"
      by (simp only: fastq_records_header fst_conv)
    have "fst (fastq_loop (readlines (fastq_records (Suc k))) [] 0 [] []) = min (0 + Suc k) 1001"
      unfolding readlines_fastq_records by (rule fastq_loop_records) simp
    with parse_fastq_total_reads [OF h o, of "''t''"] show ?thesis by simp
  qed
  have a: "map_sum id total_reads (parse_fastq ''t'' ''big.fastq'' (text_file (fastq_records 1001)))
     = Inr (Some 1001)"
    using r [of 1000] by simp
  have b: "map_sum id total_reads (parse_fastq ''t'' ''big.fastq'' (text_file (fastq_records 5000)))
     = Inr (Some 1001)"
    using r [of 4999] by simp
  have c: "fst (fastq_loop (readlines content) [] 0 [] []) \<le> 1001"
    by (rule fastq_loop_bound) simp
  from a b c show ?thesis by blast
qed

section \<open>What the sniffer reads\<close>

lemma readline_take:
  "i < n \<Longrightarrow> readline (take n ls) i = readline ls i"
  by (simp add: readline_def)

lemma first_four_lines_prefix:
  "take 4 (readlines c1) = take 4 (readlines c2) \<Longrightarrow> first_four_lines c1 = first_four_lines c2"
proof -
  assume h: "take 4 (readlines c1) = take 4 (readlines c2)"
  have "readline (readlines c1) i = readline (readlines c2) i" if "i < 4" for i
  proof -
    have "readline (readlines c1) i = readline (take 4 (readlines c1)) i"
      by (rule readline_take [symmetric]) (rule that)
    also have "\<dots> = readline (take 4 (readlines c2)) i" by (simp only: h)
    also have "\<dots> = readline (readlines c2) i" by (rule readline_take) (rule that)
    finally show ?thesis .
  qed
  then show ?thesis by (simp add: first_four_lines_def)
qed

lemma fastq_header_prefix:
  assumes "map_sum id (\<lambda>c. take 4 (readlines c)) (fastq_open p f1)
             = map_sum id (\<lambda>c. take 4 (readlines c)) (fastq_open p f2)"
  shows "validate_fastq_header p f1 = validate_fastq_header p f2"
proof (cases "fastq_open p f1")
  case (Inl e)
  with assms have "fastq_open p f2 = Inl e" by (cases "fastq_open p f2") simp_all
  with Inl show ?thesis by (simp only: validate_fastq_header_def sum.case)
next
  case (Inr c1)
  with assms obtain c2 where c2: "fastq_open p f2 = Inr c2"
    and t: "take 4 (readlines c1) = take 4 (readlines c2)"
    by (cases "fastq_open p f2") simp_all
  have eq: "first_four_lines c1 = first_four_lines c2"
    using t by (rule first_four_lines_prefix)
  show ?thesis by (simp only: validate_fastq_header_def Inr c2 sum.case eq)
qed

lemma cell_header_prefix:
  assumes "map_sum id (\<lambda>c. take 1 (readlines c)) (open_r f1)
             = map_sum id (\<lambda>c. take 1 (readlines c)) (open_r f2)"
  shows "validate_cell_header p f1 = validate_cell_header p f2"
proof (cases "open_r f1")
  case (Inl e)
  with assms have "open_r f2 = Inl e" by (cases "open_r f2") simp_all
  with Inl show ?thesis by (simp only: validate_cell_header_def sum.case)
next
  case (Inr c1)
  with assms obtain c2 where c2: "open_r f2 = Inr c2"
    and t: "take 1 (readlines c1) = take 1 (readlines c2)"
    by (cases "open_r f2") simp_all
  have "readline (readlines c1) 0 = readline (take 1 (readlines c1)) 0"
    by (rule readline_take [symmetric]) simp
  also have "\<dots> = readline (take 1 (readlines c2)) 0" by (simp only: t)
  also have "\<dots> = readline (readlines c2) 0" by (rule readline_take) simp
  finally have eq: "readline (readlines c1) 0 = readline (readlines c2) 0" .
  show ?thesis by (simp only: validate_cell_header_def Inr c2 sum.case eq)
qed

lemma bam_magic_prefix:
  "read4 f1 = read4 f2 \<Longrightarrow> validate_bam_magic p f1 = validate_bam_magic p f2"
  by (simp add: validate_bam_magic_def)

lemma detect_kind_chain:
  "fst (detect_input_type p f) =
     (if (lower (suffix p) \<in> set [''.fastq'', ''.fq'', ''.gz'']
            \<and> list_ex (\<lambda>x. contains x (path_name p)) [''fastq'', ''fq''])
          \<and> fst (validate_fastq_header p f) then FASTQ
      else if lower (suffix p) = ''.bam'' \<and> fst (validate_bam_magic p f) then BAM
      else if lower (suffix p) \<in> set [''.tsv'', ''.csv'', ''.txt'']
              \<and> fst (validate_cell_header p f) then CELL
      else if lower (suffix p) \<in> set [''.tsv'', ''.csv'', ''.txt'']
              \<and> fst (validate_count_matrix_structure p f) then MATRIX
      else UNKNOWN)"
  unfolding detect_input_type_def Let_def
  by (simp only: if_distrib [of fst] fst_conv conj_assoc)

lemma bam_extension_only:
  "e = ''.bam'' \<Longrightarrow>
     e \<notin> set [''.fastq'', ''.fq'', ''.gz''] \<and> e \<notin> set [''.tsv'', ''.csv'', ''.txt'']"
  by simp

text \<open>
  C4 (as the code has it). Only the magic check is a fixed-prefix read:
  \<^verbatim>\<open>validate_bam_magic\<close> depends on the first four bytes, and a file at a \<^verbatim>\<open>.bam\<close> path is
  classified from them alone. For files whose text reads are plain ASCII with \<^verbatim>\<open>\n\<close> line
  ends (\<open>reads_ascii\<close>: decoding cannot fail there, however far the reader decodes ahead),
  \<^verbatim>\<open>validate_fastq_header\<close> accepts or rejects by the first four lines only and
  \<^verbatim>\<open>validate_cell_header\<close> by the first line only; two such files at the same path that
  agree on these lines and on the first four bytes are classified alike by
  \<^verbatim>\<open>detect_input_type\<close>, unless both reach the count-matrix check, whose verdict (MATRIX or
  UNKNOWN) comes from \<^verbatim>\<open>readlines\<close> over the whole file.
\<close>

theorem sniffer_header_checks_read_prefixes:
  "(read4 f1 = read4 f2 \<longrightarrow>
      fst (validate_bam_magic p f1) = fst (validate_bam_magic p f2)
      \<and> (lower (suffix p) = ''.bam'' \<longrightarrow>
           fst (detect_input_type p f1) = fst (detect_input_type p f2)))
   \<and> (reads_ascii (fastq_open p f1) \<and> reads_ascii (fastq_open p f2)
       \<and> map_sum id (\<lambda>c. take 4 (readlines c)) (fastq_open p f1)
           = map_sum id (\<lambda>c. take 4 (readlines c)) (fastq_open p f2) \<longrightarrow>
      fst (validate_fastq_header p f1) = fst (validate_fastq_header p f2))
   \<and> (reads_ascii (open_r f1) \<and> reads_ascii (open_r f2)
       \<and> map_sum id (\<lambda>c. take 1 (readlines c)) (open_r f1)
           = map_sum id (\<lambda>c. take 1 (readlines c)) (open_r f2) \<longrightarrow>
      fst (validate_cell_header p f1) = fst (validate_cell_header p f2))
   \<and> (reads_ascii (fastq_open p f1) \<and> reads_ascii (fastq_open p f2)
       \<and> reads_ascii (open_r f1) \<and> reads_ascii (open_r f2)
       \<and> map_sum id (\<lambda>c. take 4 (readlines c)) (fastq_open p f1)
           = map_sum id (\<lambda>c. take 4 (readlines c)) (fastq_open p f2)
       \<and> map_sum id (\<lambda>c. take 1 (readlines c)) (open_r f1)
           = map_sum id (\<lambda>c. take 1 (readlines c)) (open_r f2)
       \<and> read4 f1 = read4 f2 \<longrightarrow>
      fst (detect_input_type p f1) = fst (detect_input_type p f2)
      \<or> fst (detect_input_type p f1) \<in> {MATRIX, UNKNOWN}
        \<and> fst (detect_input_type p f2) \<in> {MATRIX, UNKNOWN})"
proof -
  define A where "A = (lower (suffix p) \<in> set [''.fastq'', ''.fq'', ''.gz'']
            \<and> list_ex (\<lambda>x. contains x (path_name p)) [''fastq'', ''fq''])"
  define B where "B = (lower (suffix p) = ''.bam'')"
  define C where "C = (lower (suffix p) \<in> set [''.tsv'', ''.csv'', ''.txt''])"
  have d: "fst (detect_input_type p f) =
      (if A \<and> fst (validate_fastq_header p f) then FASTQ
       else if B \<and> fst (validate_bam_magic p f) then BAM
       else if C \<and> fst (validate_cell_header p f) then CELL
       else if C \<and> fst (validate_count_matrix_structure p f) then MATRIX
       else UNKNOWN)" for f
    unfolding A_def B_def C_def by (rule detect_kind_chain)
  have bam: "fst (validate_bam_magic p f1) = fst (validate_bam_magic p f2)"
    if "read4 f1 = read4 f2"
    using bam_magic_prefix [OF that, of p] by (simp only:)
  have only_bam: "fst (detect_input_type p f1) = fst (detect_input_type p f2)"
    if r: "read4 f1 = read4 f2" and e: "lower (suffix p) = ''.bam''"
  proof -
    from bam_extension_only [OF e] e have "\<not> A" "B" "\<not> C"
      unfolding A_def B_def C_def by simp_all
    then show ?thesis
      unfolding d by (simp only: bam [OF r] simp_thms if_False)
  qed
  have fq: "fst (validate_fastq_header p f1) = fst (validate_fastq_header p f2)"
    if "map_sum id (\<lambda>c. take 4 (readlines c)) (fastq_open p f1)
           = map_sum id (\<lambda>c. take 4 (readlines c)) (fastq_open p f2)"
    using fastq_header_prefix [OF that] by (simp only:)
  have cl: "fst (validate_cell_header p f1) = fst (validate_cell_header p f2)"
    if "map_sum id (\<lambda>c. take 1 (readlines c)) (open_r f1)
           = map_sum id (\<lambda>c. take 1 (readlines c)) (open_r f2)"
    using cell_header_prefix [OF that, of p] by (simp only:)
  have r: "fst (detect_input_type p f1) = fst (detect_input_type p f2)
          \<or> fst (detect_input_type p f1) \<in> {MATRIX, UNKNOWN}
            \<and> fst (detect_input_type p f2) \<in> {MATRIX, UNKNOWN}"
    if h4: "map_sum id (\<lambda>c. take 4 (readlines c)) (fastq_open p f1)
           = map_sum id (\<lambda>c. take 4 (readlines c)) (fastq_open p f2)"
      and h1: "map_sum id (\<lambda>c. take 1 (readlines c)) (open_r f1)
           = map_sum id (\<lambda>c. take 1 (readlines c)) (open_r f2)"
      and hb: "read4 f1 = read4 f2"
    unfolding d fq [OF h4] cl [OF h1] bam [OF hb] by auto
  show ?thesis
    apply (intro conjI impI)
        apply (erule bam)
       apply (erule (1) only_bam)
      apply (elim conjE, erule fq)
     apply (elim conjE, erule cl)
    apply (elim conjE, erule (2) r)
    done
qed

theorem sniffer_header_checks_read_prefixes_witness:
  "read4 (text_file (bam_magic @ ''one body'')) = read4 (text_file (bam_magic @ ''another''))
   \<and> lower (suffix ''aln.bam'') = ''.bam''
   \<and> fst (detect_input_type ''aln.bam'' (text_file (bam_magic @ ''one body''))) = BAM
   \<and> fst (detect_input_type ''aln.bam'' (text_file (bam_magic @ ''another''))) = BAM
   \<and> reads_ascii (fastq_open ''s.fastq'' (text_file (fastq_records 1 @ ''@r2\<newline>ACGT\<newline>+\<newline>IIII\<newline>'')))
   \<and> reads_ascii (fastq_open ''s.fastq'' (text_file (fastq_records 1 @ ''not a record'')))
   \<and> reads_ascii (open_r (text_file (fastq_records 1 @ ''@r2\<newline>ACGT\<newline>+\<newline>IIII\<newline>'')))
   \<and> reads_ascii (open_r (text_file (fastq_records 1 @ ''not a record'')))
   \<and> map_sum id (\<lambda>c. take 4 (readlines c))
      (fastq_open ''s.fastq'' (text_file (fastq_records 1 @ ''@r2\<newline>ACGT\<newline>+\<newline>IIII\<newline>'')))
     = map_sum id (\<lambda>c. take 4 (readlines c))
         (fastq_open ''s.fastq'' (text_file (fastq_records 1 @ ''not a record'')))
   \<and> map_sum id (\<lambda>c. take 1 (readlines c))
        (open_r (text_file (fastq_records 1 @ ''@r2\<newline>ACGT\<newline>+\<newline>IIII\<newline>'')))
     = map_sum id (\<lambda>c. take 1 (readlines c))
         (open_r (text_file (fastq_records 1 @ ''not a record'')))
   \<and> read4 (text_file (fastq_records 1 @ ''@r2\<newline>ACGT\<newline>+\<newline>IIII\<newline>''))
     = read4 (text_file (fastq_records 1 @ ''not a record''))
   \<and> fst (validate_fastq_header ''s.fastq''
            (text_file (fastq_records 1 @ ''@r2\<newline>ACGT\<newline>+\<newline>IIII\<newline>'')))
   \<and> fst (validate_fastq_header ''s.fastq'' (text_file (fastq_records 1 @ ''not a record'')))
   \<and> fst (validate_cell_header ''s.fastq''
            (text_file (fastq_records 1 @ ''@r2\<newline>ACGT\<newline>+\<newline>IIII\<newline>'')))
       = fst (validate_cell_header ''s.fastq'' (text_file (fastq_records 1 @ ''not a record'')))
   \<and> fst (detect_input_type ''s.fastq''
            (text_file (fastq_records 1 @ ''@r2\<newline>ACGT\<newline>+\<newline>IIII\<newline>''))) = FASTQ
   \<and> fst (detect_input_type ''s.fastq'' (text_file (fastq_records 1 @ ''not a record''))) = FASTQ"
proof -
  let ?b1 = "text_file (bam_magic @ ''one body'')"
  let ?b2 = "text_file (bam_magic @ ''another'')"
  let ?f1 = "text_file (fastq_records 1 @ ''@r2\<newline>ACGT\<newline>+\<newline>IIII\<newline>'')"
  let ?f2 = "text_file (fastq_records 1 @ ''not a record'')"
  note tb = sniffer_header_checks_read_prefixes [of ?b1 ?b2 "''aln.bam''"]
  note tf = sniffer_header_checks_read_prefixes [of ?f1 ?f2 "''s.fastq''"]
  have b0: "read4 ?b1 = read4 ?b2" by code_simp
  have b1: "lower (suffix ''aln.bam'') = ''.bam''" by code_simp
  have b2: "fst (detect_input_type ''aln.bam'' ?b1) = BAM" by code_simp
  have b3: "fst (detect_input_type ''aln.bam'' ?b2) = BAM"
    using tb b0 b1 b2 by (simp only:)
  have a1: "reads_ascii (fastq_open ''s.fastq'' ?f1)" by code_simp
  have a2: "reads_ascii (fastq_open ''s.fastq'' ?f2)" by code_simp
  have a3: "reads_ascii (open_r ?f1)" by code_simp
  have a4: "reads_ascii (open_r ?f2)" by code_simp
  have h4: "map_sum id (\<lambda>c. take 4 (readlines c)) (fastq_open ''s.fastq'' ?f1)
     = map_sum id (\<lambda>c. take 4 (readlines c)) (fastq_open ''s.fastq'' ?f2)"
    by code_simp
  have h1: "map_sum id (\<lambda>c. take 1 (readlines c)) (open_r ?f1)
     = map_sum id (\<lambda>c. take 1 (readlines c)) (open_r ?f2)"
    by code_simp
  have h3: "read4 ?f1 = read4 ?f2" by code_simp
  have v1: "fst (validate_fastq_header ''s.fastq'' ?f1)" by code_simp
  have v2: "fst (validate_fastq_header ''s.fastq'' ?f2)"
    using tf a1 a2 h4 v1 by (simp only:)
  have c1: "fst (validate_cell_header ''s.fastq'' ?f1) = fst (validate_cell_header ''s.fastq'' ?f2)"
    using tf a3 a4 h1 by (simp only:)
  have d1: "fst (detect_input_type ''s.fastq'' ?f1) = FASTQ" by code_simp
  have "fst (detect_input_type ''s.fastq'' ?f1) = fst (detect_input_type ''s.fastq'' ?f2)
      \<or> fst (detect_input_type ''s.fastq'' ?f1) \<in> {MATRIX, UNKNOWN}
        \<and> fst (detect_input_type ''s.fastq'' ?f2) \<in> {MATRIX, UNKNOWN}"
    using tf a1 a2 a3 a4 h4 h1 h3 by (simp only:)
  with d1 have d2: "fst (detect_input_type ''s.fastq'' ?f2) = FASTQ" by auto
  show ?thesis by (intro conjI b0 b1 b2 b3 a1 a2 a3 a4 h4 h1 h3 v1 v2 c1 d1 d2)
qed

subsection \<open>The count-matrix check reads every line\<close>

lemma readlines_header_row:
  "readlines (row [''gene_id'', ''s1''] @ rest) = row [''gene_id'', ''s1''] # readlines rest"
  by (simp add: row_def)

lemma readlines_good_row:
  "readlines (row [''g'', ''1''] @ rest) = row [''g'', ''1''] # readlines rest"
  by (simp add: row_def)

lemma readlines_bad_row:
  "readlines (row [''g'', ''-1'']) = [row [''g'', ''-1'']]"
  by (simp add: row_def)

lemma readlines_good_rows:
  "readlines (concat (replicate k (row [''g'', ''1''])) @ rest)
     = replicate k (row [''g'', ''1'']) @ readlines rest"
  by (induction k) (simp_all add: readlines_good_row)

lemma readlines_matrix_rows:
  "readlines (matrix_rows k @ rest)
     = row [''gene_id'', ''s1''] # replicate k (row [''g'', ''1'']) @ readlines rest"
  by (simp add: matrix_rows_def readlines_header_row readlines_good_rows)

lemma good_row_fields: "split_on (CHR 0x09) (strip (row [''g'', ''1''])) = [''g'', ''1'']"
  by code_simp

lemma bad_row_fields: "split_on (CHR 0x09) (strip (row [''g'', ''-1''])) = [''g'', ''-1'']"
  by code_simp

lemma header_row_fields:
  "split_on (CHR 0x09) (strip (row [''gene_id'', ''s1''])) = [''gene_id'', ''s1'']"
  by code_simp

lemma strip_g: "strip ''g'' = ''g''"
  by code_simp

lemma float_1: "py_float ''1'' = Some (Finite 1)"
  by code_simp

lemma float_minus_1: "py_float ''-1'' = Some (Finite (- 1))"
  by code_simp

lemma structure_line_good: "c = 2 \<Longrightarrow> structure_line c n (row [''g'', ''1'']) [] = []"
  by (simp add: structure_line_def good_row_fields strip_g structure_field_def float_1
        float_negative_def)

lemma structure_line_bad:
  "c = 2 \<Longrightarrow>
     structure_line c n (row [''g'', ''-1'']) [] = [NegativeCountValue n (Finite (- 1))]"
  by (simp add: structure_line_def bad_row_fields strip_g structure_field_def float_minus_1
        float_negative_def append_capped_def)

lemma structure_good_rows:
  "c = 2 \<Longrightarrow>
     fold (\<lambda>(line_num, line). structure_line c line_num line)
       (enumerate m (replicate k (row [''g'', ''1'']))) [] = []"
  by (induction k arbitrary: m) (simp_all add: structure_line_good)

lemma matrix_rows_structure:
  "fst (validate_count_matrix_structure p (text_file (matrix_rows (Suc k))))"
  using readlines_matrix_rows [of "Suc k" "[]"]
  by (simp add: validate_count_matrix_structure_def text_file_def open_r_def Let_def
        header_row_fields structure_good_rows structure_line_good)

lemma matrix_rows_bad_structure:
  "\<not> fst (validate_count_matrix_structure p
            (text_file (matrix_rows (Suc k) @ row [''g'', ''-1''])))"
  using readlines_matrix_rows [of "Suc k" "row [''g'', ''-1'']"]
  by (simp add: validate_count_matrix_structure_def text_file_def open_r_def Let_def
        header_row_fields structure_good_rows structure_line_good structure_line_bad
        readlines_bad_row enumerate_append_eq)

lemma matrix_rows_not_cell:
  "\<not> fst (validate_cell_header p (text_file (matrix_rows k @ rest)))"
proof -
  have "\<not> list_ex (\<lambda>h. contains ''probe'' h)
           (map lower (split_on (CHR 0x09) (strip (row [''gene_id'', ''s1'']))))"
    by code_simp
  then show ?thesis
    by (simp add: validate_cell_header_def text_file_def open_r_def Let_def
          readlines_matrix_rows readline_def)
qed

lemma tsv_extension: "lower (suffix ''m.tsv'') = ''.tsv''"
  by code_simp

lemma detect_matrix_rows:
  "fst (detect_input_type ''m.tsv'' (text_file (matrix_rows (Suc k)))) = MATRIX"
  using matrix_rows_structure [of "''m.tsv''" k] matrix_rows_not_cell [of "''m.tsv''" "Suc k" "[]"]
  by (simp add: detect_input_type_def Let_def tsv_extension)

lemma detect_matrix_rows_bad:
  "fst (detect_input_type ''m.tsv'' (text_file (matrix_rows (Suc k) @ row [''g'', ''-1''])))
     = UNKNOWN"
  using matrix_rows_bad_structure [of "''m.tsv''" k]
    matrix_rows_not_cell [of "''m.tsv''" "Suc k" "row [''g'', ''-1'']"]
  by (simp add: detect_input_type_def Let_def tsv_extension)

lemma matrix_rows_length: "k \<le> length (matrix_rows (Suc k))"
  by (simp add: matrix_rows_def length_concat sum_list_replicate row_def)

text \<open>
  C4 (as stated) fails: there is no prefix length \<open>k\<close>, in bytes and in lines, such that
  files agreeing on it are classified alike. For every \<open>k\<close> a well-formed count matrix of
  \<open>k + 1\<close> data rows is MATRIX, and the same file with one more row holding a negative
  count is UNKNOWN.
\<close>

theorem sniffer_reads_whole_matrix_counterexample:
  "\<not> (\<exists>k. \<forall>p c1 c2.
          take k c1 = take k c2 \<and> take k (readlines c1) = take k (readlines c2) \<longrightarrow>
          fst (detect_input_type p (text_file c1)) = fst (detect_input_type p (text_file c2)))"
proof
  assume "\<exists>k. \<forall>p c1 c2.
          take k c1 = take k c2 \<and> take k (readlines c1) = take k (readlines c2) \<longrightarrow>
          fst (detect_input_type p (text_file c1)) = fst (detect_input_type p (text_file c2))"
  then obtain k where k: "\<And>p c1 c2.
          take k c1 = take k c2 \<and> take k (readlines c1) = take k (readlines c2) \<Longrightarrow>
          fst (detect_input_type p (text_file c1)) = fst (detect_input_type p (text_file c2))"
    by blast
  let ?c1 = "matrix_rows (Suc k)"
  let ?c2 = "matrix_rows (Suc k) @ row [''g'', ''-1'']"
  have bytes: "take k ?c1 = take k ?c2"
    using matrix_rows_length [of k] by simp
  have lines: "take k (readlines ?c1) = take k (readlines ?c2)"
  proof -
    let ?ls = "row [''gene_id'', ''s1''] # replicate (Suc k) (row [''g'', ''1''])"
    have "readlines ?c1 = ?ls"
      using readlines_matrix_rows [of "Suc k" "[]"] by simp
    moreover have "readlines ?c2 = ?ls @ [row [''g'', ''-1'']]"
      using readlines_matrix_rows [of "Suc k" "row [''g'', ''-1'']"]
      by (simp add: readlines_bad_row)
    moreover have "k \<le> length ?ls" by simp
    ultimately show ?thesis by (simp only: take_append) simp
  qed
  from k [of ?c1 ?c2 "''m.tsv''"] bytes lines
  have "fst (detect_input_type ''m.tsv'' (text_file ?c1))
          = fst (detect_input_type ''m.tsv'' (text_file ?c2))"
    by blast
  then show False
    by (simp add: detect_matrix_rows detect_matrix_rows_bad)
qed

end
